theory Spec2Isabelle
  imports Complex_Main "HOL-Library.AList"
begin

section \<open>Docker activity heatmap: event store, aggregator and sync orchestrator\<close>

text \<open>
  The development follows \<^verbatim>\<open>backend/internal/services/docker_service.go\<close> (upsert of
  activity events, per-day aggregation, intensity levels, the sync run), its registry client, the
  handlers \<^verbatim>\<open>handlers/docker.go\<close> and \<^verbatim>\<open>handlers/heatmap.go\<close>, and the second
  definition of the same service functions that is found in \<^verbatim>\<open>handlers/heatmap.go\<close> from
  line 564 on. Functions of that second definition keep their name with the suffix \<open>_hm\<close>.
\<close>

subsection \<open>Intensity level\<close>

text \<open>
  \<^verbatim>\<open>calculateLevel(count, maxCount int) int\<close> of \<^verbatim>\<open>docker_service.go\<close>. The quotient
  \<^verbatim>\<open>float64(count) / float64(maxCount)\<close> is taken as the exact rational quotient: the
  three thresholds are dyadic, and for counts below \<open>2^52\<close> (far above any sum of per-day
  counters) the conversions are exact and the rounded quotient lies on the same side of each
  threshold as the exact one. The last \<^verbatim>\<open>return 1\<close> has no test of its own.
\<close>

definition calculateLevel :: "int \<Rightarrow> int \<Rightarrow> int" where
  "calculateLevel count maxCount =
     (if count = 0 \<or> maxCount = 0 then 0
      else let ratio = (of_int count :: rat) / of_int maxCount in
        if ratio > 0.75 then 4
        else if ratio > 0.5 then 3
        else if ratio > 0.25 then 2
        else 1)"

text \<open>The \<^verbatim>\<open>switch\<close> form of the second definition, with its \<^verbatim>\<open>ratio > 0\<close> case and default.\<close>

definition calculateLevel_hm :: "int \<Rightarrow> int \<Rightarrow> int" where
  "calculateLevel_hm count maxCount =
     (if count = 0 \<or> maxCount = 0 then 0
      else let ratio = (of_int count :: rat) / of_int maxCount in
        if ratio > 0.75 then 4
        else if ratio > 0.5 then 3
        else if ratio > 0.25 then 2
        else if ratio > 0 then 1
        else 0)"

text \<open>
  The level table as the specification words it: the ratio is \<open>count / maxCount\<close>, read as 0
  when either is 0, and five buckets with exclusive lower thresholds.
\<close>

definition spec_ratio :: "int \<Rightarrow> int \<Rightarrow> rat" where
  "spec_ratio c m = (if m = 0 \<or> c = 0 then 0 else of_int c / of_int m)"

definition spec_level :: "rat \<Rightarrow> int" where
  "spec_level ratio =
     (if ratio > 0.75 then 4
      else if ratio > 0.5 then 3
      else if ratio > 0.25 then 2
      else if ratio > 0 then 1
      else 0)"

subsection \<open>Data model\<close>

text \<open>
  The declarations of the package \<^verbatim>\<open>models\<close> are taken from their use: the records below
  carry the fields that the services and handlers read and write, and the event kinds are the
  three that the aggregator distinguishes. An instant is a number of seconds since the epoch in UTC;
  a \<^verbatim>\<open>time.Time\<close> with a zone is an instant and the zone's offset in seconds. Whole seconds
  suffice: every comparison below has a midnight on one side. Counters are Go \<^verbatim>\<open>int\<close>
  (64 bit) and stay far from overflow; they are modelled as \<open>int\<close>.
\<close>

datatype EventType = EventTypePush | EventTypePull | EventTypeBuild

record gotime =
  unix :: int
  zone :: int

record ActivityEvent =
  DockerAccountID :: nat
  EventType :: EventType
  EventDate :: int
  Repository :: string
  Tag :: string
  Count :: int

record DockerAccount =
  ID :: nat
  UserID :: nat
  DockerUsername :: string
  EncryptedToken :: string
  TokenIV :: string
  IsActive :: bool
  AutoRefresh :: bool
  SyncInProgress :: bool
  LastSyncAt :: "int option"
  LastSyncError :: string

record ActivitySummary =
  Date :: int
  TotalCount :: int
  Pushes :: int
  Pulls :: int
  Builds :: int
  Level :: int

text \<open>
  The two tables of \<^verbatim>\<open>database.DB\<close>, rows in primary-key order: \<^verbatim>\<open>First\<close> returns the
  first row that matches, \<^verbatim>\<open>Create\<close> appends. The position of an event row stands for its
  primary key. Writes are taken to succeed.
\<close>

record db =
  accounts :: "DockerAccount list"
  events :: "ActivityEvent list"

subsection \<open>Calendar days\<close>

definition secondsPerDay :: int where
  "secondsPerDay = 86400"

text \<open>\<^verbatim>\<open>time.Date(t.Year(), t.Month(), t.Day(), 0, 0, 0, 0, time.UTC)\<close>: the calendar day
  is read in the zone of \<open>t\<close> and the result is that day's midnight in UTC.\<close>

definition midnightUTC :: "gotime \<Rightarrow> int" where
  "midnightUTC t = ((unix t + zone t) div secondsPerDay) * secondsPerDay"

definition utc :: "int \<Rightarrow> gotime" where
  "utc t = \<lparr>unix = t, zone = 0\<rparr>"

text \<open>\<^verbatim>\<open>t.AddDate(0, 0, n)\<close> on a UTC time.\<close>

definition AddDate :: "int \<Rightarrow> int \<Rightarrow> int" where
  "AddDate t n = t + n * secondsPerDay"

text \<open>\<^verbatim>\<open>t.Format("2006-01-02")\<close> of a UTC time: the calendar day, kept as its number of days
  since 1970-01-01 in place of the string (day 19723 is 2024-01-01). The rendering is
  one-to-one, so map keys and equality of dates are unchanged.\<close>

definition formatDate :: "int \<Rightarrow> int" where
  "formatDate t = t div secondsPerDay"

subsection \<open>Event store: \<^verbatim>\<open>createActivity\<close>\<close>

fun first_index :: "('a \<Rightarrow> bool) \<Rightarrow> 'a list \<Rightarrow> nat option" where
  "first_index P [] = None"
| "first_index P (x # xs) = (if P x then Some 0 else map_option Suc (first_index P xs))"

text \<open>The \<^verbatim>\<open>Where\<close> clause of the lookup:
  \<^verbatim>\<open>docker_account_id = ? AND event_date = ? AND repository = ? AND tag = ?\<close>.\<close>

definition lookup_key :: "nat \<Rightarrow> int \<Rightarrow> string \<Rightarrow> string \<Rightarrow> ActivityEvent \<Rightarrow> bool" where
  "lookup_key accountID day repo tag e \<longleftrightarrow>
     DockerAccountID e = accountID \<and> EventDate e = day \<and> Repository e = repo \<and> Tag e = tag"

text \<open>
  \<^verbatim>\<open>createActivity(account, eventType, eventDate, repo, tag) bool\<close>: the events table is passed
  in and returned. Both definitions of the function do the same on the table when the insert
  succeeds.
\<close>

definition createActivity ::
  "ActivityEvent list \<Rightarrow> DockerAccount \<Rightarrow> EventType \<Rightarrow> gotime \<Rightarrow> string \<Rightarrow> string
     \<Rightarrow> ActivityEvent list \<times> bool" where
  "createActivity evs account eventType eventDate repo tag =
     (let normalizedDate = midnightUTC eventDate in
      case first_index (lookup_key (ID account) normalizedDate repo tag) evs of
        Some i \<Rightarrow>
          (let existing = evs ! i in
           (evs[i := existing\<lparr>Count := Count existing + 1\<rparr>], False))
      | None \<Rightarrow>
          (evs @ [\<lparr>DockerAccountID = ID account, EventType = eventType,
                   EventDate = normalizedDate, Repository = repo, Tag = tag, Count = 1\<rparr>],
           True))"

subsection \<open>Account lookups\<close>

definition ErrDockerAccountNotFound :: string where
  "ErrDockerAccountNotFound = ''docker account not found''"


definition GetDockerAccountByUsername :: "db \<Rightarrow> string \<Rightarrow> string + DockerAccount" where
  "GetDockerAccountByUsername d dockerUsername =
     (case find (\<lambda>a. DockerUsername a = dockerUsername) (accounts d) of
        None \<Rightarrow> Inl ErrDockerAccountNotFound
      | Some account \<Rightarrow> Inr account)"

subsection \<open>Aggregator: \<^verbatim>\<open>GetActivitySummary\<close>\<close>

text \<open>\<^verbatim>\<open>models.ActivitySummary{Date: dateStr}\<close>: every other field has its zero value.\<close>

definition new_summary :: "int \<Rightarrow> ActivitySummary" where
  "new_summary dateStr =
     \<lparr>Date = dateStr, TotalCount = 0, Pushes = 0, Pulls = 0, Builds = 0, Level = 0\<rparr>"

text \<open>\<^verbatim>\<open>dateMap\<close>, a Go map from the date string to a summary, as an association list with
  one entry per key.\<close>

type_synonym dateMap = "(int \<times> ActivitySummary) list"

text \<open>The first loop of \<^verbatim>\<open>GetActivitySummary\<close> in \<^verbatim>\<open>docker_service.go\<close>: it adds the
  count of each event to the entry of its day and keeps the largest running total seen.\<close>

fun aggregate :: "ActivityEvent list \<Rightarrow> dateMap \<Rightarrow> int \<Rightarrow> dateMap \<times> int" where
  "aggregate [] dm maxCount = (dm, maxCount)"
| "aggregate (event # es) dm maxCount =
     (let dateStr = formatDate (EventDate event);
          entry = (case map_of dm dateStr of None \<Rightarrow> new_summary dateStr | Some s \<Rightarrow> s);
          entry' = entry\<lparr>TotalCount := TotalCount entry + Count event\<rparr>;
          maxCount' = (if TotalCount entry' > maxCount then TotalCount entry' else maxCount)
      in aggregate es (AList.update dateStr entry' dm) maxCount')"

text \<open>The second loop: \<^verbatim>\<open>for d := startDate; !d.After(now); d = d.AddDate(0, 0, 1)\<close>. The
  body of the loop is \<open>summary_for\<close>; the summaries are produced in the order the source
  appends them. The clock is read once per
  call: all readings of \<^verbatim>\<open>time.Now()\<close> within one call are the instant \<open>now\<close>.\<close>

definition summary_for :: "dateMap \<Rightarrow> int \<Rightarrow> int \<Rightarrow> ActivitySummary" where
  "summary_for dm maxCount dateStr =
     (case map_of dm dateStr of
        Some s \<Rightarrow> (new_summary dateStr)
          \<lparr>TotalCount := TotalCount s, Level := calculateLevel (TotalCount s) maxCount\<rparr>
      | None \<Rightarrow> new_summary dateStr)"

function fillDates :: "int \<Rightarrow> int \<Rightarrow> dateMap \<Rightarrow> int \<Rightarrow> ActivitySummary list" where
  "fillDates d now dm maxCount =
     (if d > now then []
      else summary_for dm maxCount (formatDate d) # fillDates (AddDate d 1) now dm maxCount)"
  by pat_completeness auto
termination
  by (relation "measure (\<lambda>(d, now, dm, maxCount). nat (now - d + 1))")
    (auto simp add: AddDate_def secondsPerDay_def)

declare fillDates.simps [simp del]

definition GetActivitySummary :: "db \<Rightarrow> int \<Rightarrow> string \<Rightarrow> int \<Rightarrow> string + ActivitySummary list" where
  "GetActivitySummary d now dockerUsername days =
     (case GetDockerAccountByUsername d dockerUsername of
        Inl err \<Rightarrow> Inl err
      | Inr account \<Rightarrow>
          (let startDate = midnightUTC (utc (AddDate now (- days)));
               evs = filter (\<lambda>e. DockerAccountID e = ID account \<and> EventDate e \<ge> startDate)
                       (events d);
               (dateMap, maxCount) = aggregate evs [] 0
           in Inr (fillDates startDate now dateMap maxCount)))"

text \<open>The second definition (\<open>_hm\<close>): the per-kind breakdown is filled in, the maximum is taken
  in a loop of its own over the map, the query has an upper end, and an entry of the map is
  emitted as it is, with its level set.\<close>

fun aggregate_hm :: "ActivityEvent list \<Rightarrow> dateMap \<Rightarrow> dateMap" where
  "aggregate_hm [] dm = dm"
| "aggregate_hm (event # es) dm =
     (let dateStr = formatDate (EventDate event);
          summary = (case map_of dm dateStr of None \<Rightarrow> new_summary dateStr | Some s \<Rightarrow> s);
          summary1 = summary\<lparr>TotalCount := TotalCount summary + Count event\<rparr>;
          summary2 = (case EventType event of
                        EventTypePush \<Rightarrow> summary1\<lparr>Pushes := Pushes summary1 + Count event\<rparr>
                      | EventTypePull \<Rightarrow> summary1\<lparr>Pulls := Pulls summary1 + Count event\<rparr>
                      | EventTypeBuild \<Rightarrow> summary1\<lparr>Builds := Builds summary1 + Count event\<rparr>)
      in aggregate_hm es (AList.update dateStr summary2 dm))"

fun maxCount_hm :: "dateMap \<Rightarrow> int \<Rightarrow> int" where
  "maxCount_hm [] maxCount = maxCount"
| "maxCount_hm ((k, s) # dm) maxCount =
     maxCount_hm dm (if TotalCount s > maxCount then TotalCount s else maxCount)"

definition summary_for_hm :: "dateMap \<Rightarrow> int \<Rightarrow> int \<Rightarrow> ActivitySummary" where
  "summary_for_hm dm maxCount dateStr =
     (case map_of dm dateStr of
        Some s \<Rightarrow> s\<lparr>Level := calculateLevel_hm (TotalCount s) maxCount\<rparr>
      | None \<Rightarrow> new_summary dateStr)"

function fillDates_hm :: "int \<Rightarrow> int \<Rightarrow> dateMap \<Rightarrow> int \<Rightarrow> ActivitySummary list" where
  "fillDates_hm d endDate dm maxCount =
     (if d > endDate then []
      else summary_for_hm dm maxCount (formatDate d) # fillDates_hm (AddDate d 1) endDate dm maxCount)"
  by pat_completeness auto
termination
  by (relation "measure (\<lambda>(d, endDate, dm, maxCount). nat (endDate - d + 1))")
    (auto simp add: AddDate_def secondsPerDay_def)

declare fillDates_hm.simps [simp del]

definition GetActivitySummary_hm :: "db \<Rightarrow> int \<Rightarrow> string \<Rightarrow> int \<Rightarrow> string + ActivitySummary list" where
  "GetActivitySummary_hm d now dockerUsername days =
     (case GetDockerAccountByUsername d dockerUsername of
        Inl err \<Rightarrow> Inl err
      | Inr account \<Rightarrow>
          (let startDate = midnightUTC (utc (AddDate now (- days)));
               endDate = now;
               evs = filter (\<lambda>e. DockerAccountID e = ID account \<and> EventDate e \<ge> startDate
                                 \<and> EventDate e \<le> endDate) (events d);
               dateMap = aggregate_hm evs [];
               maxCount = maxCount_hm dateMap 0
           in Inr (fillDates_hm startDate endDate dateMap maxCount)))"

subsection \<open>Handler \<^verbatim>\<open>GetActivityJSON\<close>\<close>

record totals =
  activities :: int
  pushes :: int
  pulls :: int
  builds :: int

datatype response =
  ErrorJSON nat string
  | ActivityJSON string int totals "ActivitySummary list"
  | MessageJSON string

definition TrimSuffix :: "string \<Rightarrow> string \<Rightarrow> string" where
  "TrimSuffix s suffix =
     (if length suffix \<le> length s \<and> drop (length s - length suffix) s = suffix
      then take (length s - length suffix) s else s)"

fun sum_totals :: "ActivitySummary list \<Rightarrow> totals \<Rightarrow> totals" where
  "sum_totals [] tot = tot"
| "sum_totals (a # as) tot =
     sum_totals as \<lparr>activities = activities tot + TotalCount a, pushes = pushes tot + Pushes a,
                    pulls = pulls tot + Pulls a, builds = builds tot + Builds a\<rparr>"

text \<open>
  The handler, over the summary function of the service it holds. The \<^verbatim>\<open>days\<close> query
  parameter is \<open>None\<close> when it is absent or not an integer (\<^verbatim>\<open>strconv.Atoi\<close> fails).
\<close>

definition GetActivityJSON_with ::
  "(string \<Rightarrow> int \<Rightarrow> string + ActivitySummary list) \<Rightarrow> string \<Rightarrow> int option \<Rightarrow> response" where
  "GetActivityJSON_with summary param daysQuery =
     (let username = TrimSuffix param ''.json'' in
      if username = [] then ErrorJSON 400 ''Username is required''
      else
        (let days = (case daysQuery of
                       Some parsed \<Rightarrow> if parsed > 0 \<and> parsed \<le> 365 then parsed else 365
                     | None \<Rightarrow> 365)
         in case summary username days of
              Inl err \<Rightarrow>
                if err = ErrDockerAccountNotFound
                then ErrorJSON 404 ''User not found or no Docker account connected''
                else ErrorJSON 500 ''Failed to fetch activity''
            | Inr acts \<Rightarrow>
                ActivityJSON username days
                  (sum_totals acts \<lparr>activities = 0, pushes = 0, pulls = 0, builds = 0\<rparr>) acts))"

definition GetActivityJSON :: "db \<Rightarrow> int \<Rightarrow> string \<Rightarrow> int option \<Rightarrow> response" where
  "GetActivityJSON d now = GetActivityJSON_with (GetActivitySummary d now)"

definition GetActivityJSON_hm :: "db \<Rightarrow> int \<Rightarrow> string \<Rightarrow> int option \<Rightarrow> response" where
  "GetActivityJSON_hm d now = GetActivityJSON_with (GetActivitySummary_hm d now)"

subsection \<open>Registry client and credential vault\<close>

record DockerHubRepository =
  Name :: string
  LastUpdated :: string

record DockerHubTag =
  TagName :: string
  TagLastPushed :: string

text \<open>
  What lies outside the process during one sync run: the result of \<^verbatim>\<open>utils.Decrypt\<close> on a
  ciphertext and an IV, the answers of the three Docker Hub endpoints, the result of
  \<^verbatim>\<open>time.Parse\<close> over the four layouts of \<^verbatim>\<open>parseDockerHubTime\<close>, and the clock when
  the deferred function runs. An error is its message.
\<close>

record world =
  Decrypt :: "string \<Rightarrow> string \<Rightarrow> string + string"
  loginRequest :: "string \<Rightarrow> string \<Rightarrow> string + string"
  FetchRepositories :: "string \<Rightarrow> string \<Rightarrow> string + DockerHubRepository list"
  FetchTags :: "string \<Rightarrow> string \<Rightarrow> string \<Rightarrow> string + DockerHubTag list"
  parseDockerHubTime :: "string \<Rightarrow> string + gotime"
  Now :: int

text \<open>The requests sent to the registry, in order, with the credential each one carries.\<close>

datatype call =
  LoginCall string string
  | FetchRepositoriesCall string string
  | FetchTagsCall string string string

text \<open>\<^verbatim>\<open>login\<close>: an empty PAT is refused before any request is made.\<close>

definition login :: "world \<Rightarrow> string \<Rightarrow> string \<Rightarrow> (string + string) \<times> call list" where
  "login w username pat =
     (if pat = [] then (Inl ''PAT is required for login'', [])
      else (loginRequest w username pat, [LoginCall username pat]))"

subsection \<open>Sync orchestrator: \<^verbatim>\<open>SyncActivity\<close>\<close>

text \<open>\<^verbatim>\<open>database.DB.First(&account, accountID)\<close> and \<^verbatim>\<open>database.DB.Save(&account)\<close>: the
  row with the primary key of the struct is replaced, or the struct is inserted when there is
  none.\<close>

definition FirstAccount :: "db \<Rightarrow> nat \<Rightarrow> DockerAccount option" where
  "FirstAccount d accountID = find (\<lambda>a. ID a = accountID) (accounts d)"

definition Save :: "db \<Rightarrow> DockerAccount \<Rightarrow> db" where
  "Save d account =
     (if \<exists>a\<in>set (accounts d). ID a = ID account
      then d\<lparr>accounts := map (\<lambda>a. if ID a = ID account then account else a) (accounts d)\<rparr>
      else d\<lparr>accounts := accounts d @ [account]\<rparr>)"

text \<open>The inner loop over the tags of one repository: a tag with a push time that parses is
  recorded as a push of that repository and tag. The counter \<^verbatim>\<open>eventsCreated\<close> is only
  logged and is left out.\<close>

fun process_tags ::
  "world \<Rightarrow> DockerAccount \<Rightarrow> string \<Rightarrow> DockerHubTag list \<Rightarrow> ActivityEvent list
     \<Rightarrow> ActivityEvent list" where
  "process_tags w account repoName [] evs = evs"
| "process_tags w account repoName (tag # tags) evs =
     process_tags w account repoName tags
       (if TagLastPushed tag \<noteq> [] then
          (case parseDockerHubTime w (TagLastPushed tag) of
             Inr t \<Rightarrow> fst (createActivity evs account EventTypePush t repoName (TagName tag))
           | Inl err \<Rightarrow> evs)
        else evs)"

text \<open>The loop over the repositories: a push for the repository's own \<^verbatim>\<open>last_updated\<close>,
  then its tags; a failed \<^verbatim>\<open>FetchTags\<close> gives no tags and the loop goes on.\<close>

fun process_repos ::
  "world \<Rightarrow> DockerAccount \<Rightarrow> string \<Rightarrow> DockerHubRepository list
     \<Rightarrow> ActivityEvent list \<times> call list \<Rightarrow> ActivityEvent list \<times> call list" where
  "process_repos w account token [] st = st"
| "process_repos w account token (repo # repos) (evs, calls) =
     (let evs1 = (if LastUpdated repo \<noteq> [] then
                    (case parseDockerHubTime w (LastUpdated repo) of
                       Inr t \<Rightarrow> fst (createActivity evs account EventTypePush t (Name repo) [])
                     | Inl err \<Rightarrow> evs)
                  else evs);
          tags = (case FetchTags w (DockerUsername account) (Name repo) token of
                    Inr ts \<Rightarrow> ts
                  | Inl err \<Rightarrow> [])
      in process_repos w account token repos
           (process_tags w account (Name repo) tags evs1,
            calls @ [FetchTagsCall (DockerUsername account) (Name repo) token]))"

text \<open>
  The body of \<^verbatim>\<open>SyncActivity\<close> in \<^verbatim>\<open>docker_service.go\<close> between the \<^verbatim>\<open>defer\<close> and the
  return: the local account struct as the body leaves it, the events table, the requests made
  and the returned error.
\<close>

definition sync_body ::
  "world \<Rightarrow> DockerAccount \<Rightarrow> ActivityEvent list
     \<Rightarrow> DockerAccount \<times> ActivityEvent list \<times> call list \<times> string option" where
  "sync_body w account evs =
     (case Decrypt w (EncryptedToken account) (TokenIV account) of
        Inl err \<Rightarrow> (account, evs, [], Some err)
      | Inr pat \<Rightarrow>
          (case login w (DockerUsername account) pat of
             (Inl err, calls) \<Rightarrow>
               (account\<lparr>LastSyncError := ''Authentication failed''\<rparr>, evs, calls, Some err)
           | (Inr token, calls) \<Rightarrow>
               (case FetchRepositories w (DockerUsername account) token of
                  Inl err \<Rightarrow>
                    (account\<lparr>LastSyncError := ''Failed to fetch repositories''\<rparr>, evs,
                     calls @ [FetchRepositoriesCall (DockerUsername account) token], Some err)
                | Inr repos \<Rightarrow>
                    (let (evs', calls') =
                           process_repos w account token repos
                             (evs, calls @ [FetchRepositoriesCall (DockerUsername account) token])
                     in (account\<lparr>LastSyncError := []\<rparr>, evs', calls', None)))))"

text \<open>The first write of a run: the account is marked as syncing and saved.\<close>

definition mark_running :: "db \<Rightarrow> DockerAccount \<Rightarrow> db" where
  "mark_running d account = Save d (account\<lparr>SyncInProgress := True\<rparr>)"

text \<open>
  \<^verbatim>\<open>SyncActivity(ctx, accountID) error\<close>: the resulting tables, the returned error and the
  requests made. The deferred function runs on every return that follows the \<^verbatim>\<open>defer\<close>.
\<close>

definition SyncActivity :: "world \<Rightarrow> db \<Rightarrow> nat \<Rightarrow> db \<times> string option \<times> call list" where
  "SyncActivity w d accountID =
     (case FirstAccount d accountID of
        None \<Rightarrow> (d, Some ''record not found'', [])
      | Some account \<Rightarrow>
          (let d1 = mark_running d account;
               (account', evs', calls, err) =
                  sync_body w (account\<lparr>SyncInProgress := True\<rparr>) (events d1);
               account'' = account'\<lparr>SyncInProgress := False, LastSyncAt := Some (Now w)\<rparr>
           in (Save (d1\<lparr>events := evs'\<rparr>) account'', err, calls)))"

text \<open>The second definition (\<open>_hm\<close>): a failed decryption leaves the token empty and the run
  goes on; there is no login; the error of \<^verbatim>\<open>FetchRepositories\<close> is recorded with its own
  message. Its loop over the repositories writes the same events as \<open>process_repos\<close>.\<close>

definition sync_body_hm ::
  "world \<Rightarrow> DockerAccount \<Rightarrow> ActivityEvent list
     \<Rightarrow> DockerAccount \<times> ActivityEvent list \<times> call list \<times> string option" where
  "sync_body_hm w account evs =
     (let token = (case Decrypt w (EncryptedToken account) (TokenIV account) of
                     Inl err \<Rightarrow> []
                   | Inr tok \<Rightarrow> tok)
      in case FetchRepositories w (DockerUsername account) token of
           Inl err \<Rightarrow>
             (account\<lparr>LastSyncError := err\<rparr>, evs,
              [FetchRepositoriesCall (DockerUsername account) token], Some err)
         | Inr repos \<Rightarrow>
             if repos = [] then
               (account\<lparr>LastSyncError := []\<rparr>, evs,
                [FetchRepositoriesCall (DockerUsername account) token], None)
             else
               (let (evs', calls') =
                      process_repos w account token repos
                        (evs, [FetchRepositoriesCall (DockerUsername account) token])
                in (account\<lparr>LastSyncError := []\<rparr>, evs', calls', None)))"

definition SyncActivity_hm :: "world \<Rightarrow> db \<Rightarrow> nat \<Rightarrow> db \<times> string option \<times> call list" where
  "SyncActivity_hm w d accountID =
     (case FirstAccount d accountID of
        None \<Rightarrow> (d, Some ''account not found: record not found'', [])
      | Some account \<Rightarrow>
          (let d1 = mark_running d account;
               (account', evs', calls, err) =
                  sync_body_hm w (account\<lparr>SyncInProgress := True\<rparr>) (events d1);
               account'' = account'\<lparr>SyncInProgress := False, LastSyncAt := Some (Now w)\<rparr>
           in (Save (d1\<lparr>events := evs'\<rparr>) account'', err, calls)))"

subsection \<open>Handler \<^verbatim>\<open>SyncDockerActivity\<close>\<close>



subsection \<open>Stores reachable by sync runs and deletions\<close>

text \<open>
  The stores that the event-writing and event-deleting operations can produce from a store
  without events: sync runs insert and increment; \<^verbatim>\<open>ConnectAccount\<close>,
  \<^verbatim>\<open>DisconnectAccount\<close> and \<^verbatim>\<open>cleanupOldData\<close> only delete event rows.
\<close>

inductive reachable :: "db \<Rightarrow> bool" where
  no_events: "events d = [] \<Longrightarrow> reachable d"
| sync: "reachable d \<Longrightarrow> reachable (fst (SyncActivity w d accountID))"
| sync_hm: "reachable d \<Longrightarrow> reachable (fst (SyncActivity_hm w d accountID))"
| delete: "reachable d \<Longrightarrow> set (events d') \<subseteq> set (events d) \<Longrightarrow> reachable d'"

subsection \<open>Example data\<close>

text \<open>An account, and two instants of 2024-01-01 (01:00 and 02:00 UTC); 1704067200 is the
  midnight that starts that day.\<close>

definition example_account :: DockerAccount where
  "example_account =
     \<lparr>ID = 4, UserID = 7, DockerUsername = ''alice'', EncryptedToken = ''c1ph3r'',
      TokenIV = ''iv'', IsActive = True, AutoRefresh = True, SyncInProgress = False,
      LastSyncAt = None, LastSyncError = ''''\<rparr>"

definition example_t0 :: gotime where
  "example_t0 = \<lparr>unix = 1704070800, zone = 0\<rparr>"

definition example_t1 :: gotime where
  "example_t1 = \<lparr>unix = 1704074400, zone = 0\<rparr>"

definition example_row :: "EventType \<Rightarrow> int \<Rightarrow> ActivityEvent" where
  "example_row kind n =
     \<lparr>DockerAccountID = 4, EventType = kind, EventDate = 1704067200,
      Repository = ''web'', Tag = ''v1'', Count = n\<rparr>"

text \<open>The scenario of three days: counts 5 on 2024-01-01 (day 19723), nothing on 2024-01-02
  and 10 on 2024-01-03, read at noon of 2024-01-03 with \<open>days = 2\<close>. The second store holds
  the empty day as a row of count 0.\<close>

definition scenario_event :: "int \<Rightarrow> int \<Rightarrow> ActivityEvent" where
  "scenario_event day n =
     \<lparr>DockerAccountID = 4, EventType = EventTypePush, EventDate = day * 86400,
      Repository = ''web'', Tag = ''v1'', Count = n\<rparr>"

definition scenario_db :: db where
  "scenario_db =
     \<lparr>accounts = [example_account],
      events = [scenario_event 19723 5, scenario_event 19725 10]\<rparr>"

definition scenario_db_zero_row :: db where
  "scenario_db_zero_row =
     \<lparr>accounts = [example_account],
      events = [scenario_event 19723 5, scenario_event 19724 0, scenario_event 19725 10]\<rparr>"

definition scenario_now :: int where
  "scenario_now = 1704283200"

text \<open>A store with the example account and no events, and two worlds: in the first the
  stored token decrypts, the login succeeds and the registry lists one repository with one
  tag, both pushed on 2024-01-01; in the second \<^verbatim>\<open>utils.Decrypt\<close> fails and everything else
  is the same (the registry answers whatever the token is).\<close>

definition example_db :: db where
  "example_db = \<lparr>accounts = [example_account], events = []\<rparr>"

definition example_world :: world where
  "example_world =
     \<lparr>Decrypt = (\<lambda>c iv. if c = ''c1ph3r'' \<and> iv = ''iv'' then Inr ''dckr_pat_1''
                         else Inl ''cipher: message authentication failed''),
      loginRequest = (\<lambda>u p. if u = ''alice'' \<and> p = ''dckr_pat_1'' then Inr ''jwt-1''
                              else Inl ''invalid docker hub access token''),
      FetchRepositories = (\<lambda>u tok. if u = ''alice''
                              then Inr [\<lparr>Name = ''web'', LastUpdated = ''2024-01-01T01:00:00Z''\<rparr>]
                              else Inl ''failed to fetch repositories: status 404''),
      FetchTags = (\<lambda>u r tok. if u = ''alice'' \<and> r = ''web''
                              then Inr [\<lparr>TagName = ''v1'', TagLastPushed = ''2024-01-01T02:00:00Z''\<rparr>]
                              else Inl ''failed to fetch tags: status 404''),
      parseDockerHubTime = (\<lambda>s. if s = ''2024-01-01T01:00:00Z'' then Inr example_t0
                                 else if s = ''2024-01-01T02:00:00Z'' then Inr example_t1
                                 else Inl ''unable to parse date''),
      Now = 1704283200\<rparr>"

definition example_world_bad_key :: world where
  "example_world_bad_key =
     example_world\<lparr>Decrypt := (\<lambda>c iv. Inl ''cipher: message authentication failed'')\<rparr>"

section \<open>Properties\<close>

subsection \<open>Intensity level\<close>

lemma spec_level_mono: "r \<le> r' \<Longrightarrow> spec_level r \<le> spec_level r'"
  by (simp add: spec_level_def)

lemma calculateLevel_hm_spec: "calculateLevel_hm c m = spec_level (spec_ratio c m)"
proof (cases "c = 0 \<or> m = 0")
  case True
  then show ?thesis
    by (auto simp add: calculateLevel_hm_def spec_level_def spec_ratio_def)
next
  case False
  then have "spec_ratio c m = of_int c / of_int m"
    by (simp add: spec_ratio_def)
  with False show ?thesis
    unfolding calculateLevel_hm_def spec_level_def Let_def by simp
qed


lemma calculateLevel_hm_mono:
  "spec_ratio c m \<le> spec_ratio c' m' \<Longrightarrow> calculateLevel_hm c m \<le> calculateLevel_hm c' m'"
  by (simp only: calculateLevel_hm_spec spec_level_mono)

lemma spec_level_boundaries:
  "spec_level 0.75 = 3" "spec_level 0.5 = 2" "spec_level 0.25 = 1" "spec_level 0 = 0"
  by (simp_all add: spec_level_def)



subsection \<open>Event store\<close>

lemma first_index_None: "first_index P xs = None \<longleftrightarrow> (\<forall>x\<in>set xs. \<not> P x)"
  by (induction xs) auto

lemma first_index_Some:
  "first_index P xs = Some i \<Longrightarrow> i < length xs \<and> P (xs ! i) \<and> (\<forall>j<i. \<not> P (xs ! j))"
proof (induction xs arbitrary: i)
  case Nil
  then show ?case by simp
next
  case (Cons x xs)
  show ?case
  proof (cases "P x")
    case True
    with Cons.prems show ?thesis by simp
  next
    case False
    with Cons.prems obtain k where k: "first_index P xs = Some k" "i = Suc k"
      by auto
    from Cons.IH [OF k(1)] False k(2) show ?thesis
      by (auto simp add: less_Suc_eq_0_disj)
  qed
qed

lemma first_index_update:
  "first_index P xs = Some i \<Longrightarrow> P y \<Longrightarrow> first_index P (xs[i := y]) = Some i"
  by (induction xs arbitrary: i) (auto split: if_splits)

lemma first_index_append_new:
  "first_index P xs = None \<Longrightarrow> P y \<Longrightarrow> first_index P (xs @ [y]) = Some (length xs)"
  by (induction xs) (auto split: if_splits)




lemma lookup_key_Count [simp]:
  "lookup_key a d r t (e\<lparr>Count := c\<rparr>) = lookup_key a d r t e"
  by (simp add: lookup_key_def)

lemma filter_update_unaffected:
  "i < length xs \<Longrightarrow> \<not> Q (xs ! i) \<Longrightarrow> \<not> Q y \<Longrightarrow> filter Q (xs[i := y]) = filter Q xs"
  by (induction xs arbitrary: i) (auto simp add: nth_Cons split: nat.splits)

lemma createActivity_new:
  "first_index (lookup_key (ID a) (midnightUTC t) r g) evs = None \<Longrightarrow>
     createActivity evs a kind t r g =
       (evs @ [\<lparr>DockerAccountID = ID a, EventType = kind, EventDate = midnightUTC t,
                Repository = r, Tag = g, Count = 1\<rparr>], True)"
  by (simp add: createActivity_def)

lemma createActivity_found:
  "first_index (lookup_key (ID a) (midnightUTC t) r g) evs = Some i \<Longrightarrow>
     createActivity evs a kind t r g = (evs[i := (evs ! i)\<lparr>Count := Count (evs ! i) + 1\<rparr>], False)"
  by (simp add: createActivity_def Let_def)

lemma createActivity_twice_new:
  assumes "first_index (lookup_key (ID a) (midnightUTC t) r g) evs = None"
    and "midnightUTC t' = midnightUTC t"
  shows "fst (createActivity (fst (createActivity evs a kind t r g)) a kind' t' r g) =
       evs @ [\<lparr>DockerAccountID = ID a, EventType = kind, EventDate = midnightUTC t,
                Repository = r, Tag = g, Count = 2\<rparr>]"
proof -
  let ?new = "\<lparr>DockerAccountID = ID a, EventType = kind, EventDate = midnightUTC t,
                Repository = r, Tag = g, Count = 1\<rparr>"
  have k: "lookup_key (ID a) (midnightUTC t) r g ?new"
    by (simp add: lookup_key_def)
  have "first_index (lookup_key (ID a) (midnightUTC t') r g) (evs @ [?new]) = Some (length evs)"
    using first_index_append_new [OF assms(1) k] assms(2) by simp
  then have "createActivity (evs @ [?new]) a kind' t' r g =
      ((evs @ [?new])[length evs := ((evs @ [?new]) ! length evs)
          \<lparr>Count := Count ((evs @ [?new]) ! length evs) + 1\<rparr>], False)"
    by (rule createActivity_found)
  then show ?thesis
    by (simp add: createActivity_new [OF assms(1)])
qed

lemma createActivity_twice_found:
  assumes "first_index (lookup_key (ID a) (midnightUTC t) r g) evs = Some i"
    and "midnightUTC t' = midnightUTC t"
  shows "fst (createActivity (fst (createActivity evs a kind t r g)) a kind' t' r g) =
       evs[i := (evs ! i)\<lparr>Count := Count (evs ! i) + 2\<rparr>]"
proof -
  let ?K = "lookup_key (ID a) (midnightUTC t) r g"
  let ?r1 = "(evs ! i)\<lparr>Count := Count (evs ! i) + 1\<rparr>"
  from first_index_Some [OF assms(1)] have i: "i < length evs" and ki: "?K (evs ! i)"
    by simp_all
  have "?K ?r1" using ki by simp
  then have "first_index ?K (evs[i := ?r1]) = Some i"
    by (rule first_index_update [OF assms(1)])
  then have "first_index (lookup_key (ID a) (midnightUTC t') r g) (evs[i := ?r1]) = Some i"
    using assms(2) by simp
  then have "createActivity (evs[i := ?r1]) a kind' t' r g =
      ((evs[i := ?r1])[i := ((evs[i := ?r1]) ! i)\<lparr>Count := Count ((evs[i := ?r1]) ! i) + 1\<rparr>], False)"
    by (rule createActivity_found)
  then show ?thesis
    using i by (simp add: createActivity_found [OF assms(1)] add.commute)
qed

lemma example_midnights:
  "midnightUTC example_t0 = 1704067200" "midnightUTC example_t1 = 1704067200"
  by (simp_all add: midnightUTC_def example_t0_def example_t1_def secondsPerDay_def)

lemma example_lookup_key:
  "lookup_key (ID example_account) 1704067200 ''web'' ''v1'' (example_row kind n)"
  by (simp add: lookup_key_def example_account_def example_row_def)


lemma createActivity_kinds_kept:
  "map EventType (take (length evs) (fst (createActivity evs a kind t r g))) = map EventType evs"
proof (cases "first_index (lookup_key (ID a) (midnightUTC t) r g) evs")
  case None
  then show ?thesis by (simp add: createActivity_new)
next
  case (Some i)
  from first_index_Some [OF Some] have "i < length evs" by simp
  then have "map EventType (evs[i := (evs ! i)\<lparr>Count := Count (evs ! i) + 1\<rparr>]) = map EventType evs"
    by (simp add: map_update list_update_same_conv)
  then show ?thesis by (simp add: createActivity_found [OF Some])
qed

lemma createActivity_other_key:
  assumes "(a', d', r', g') \<noteq> (ID a, midnightUTC t, r, g)"
  shows "filter (lookup_key a' d' r' g') (fst (createActivity evs a kind t r g)) =
         filter (lookup_key a' d' r' g') evs"
proof (cases "first_index (lookup_key (ID a) (midnightUTC t) r g) evs")
  case None
  from assms have "\<not> lookup_key a' d' r' g' \<lparr>DockerAccountID = ID a, EventType = kind,
      EventDate = midnightUTC t, Repository = r, Tag = g, Count = 1\<rparr>"
    by (auto simp add: lookup_key_def)
  then show ?thesis by (simp add: createActivity_new [OF None])
next
  case (Some i)
  from first_index_Some [OF Some]
  have i: "i < length evs" and ki: "lookup_key (ID a) (midnightUTC t) r g (evs ! i)"
    by simp_all
  from ki assms have n: "\<not> lookup_key a' d' r' g' (evs ! i)"
    by (auto simp add: lookup_key_def)
  then have n': "\<not> lookup_key a' d' r' g' ((evs ! i)\<lparr>Count := Count (evs ! i) + 1\<rparr>)"
    by simp
  from filter_update_unaffected [OF i n n'] show ?thesis
    by (simp add: createActivity_found [OF Some])
qed

text \<open>
  Claim C5, as the code has it. The key of an upsert is account, day, resource and
  sub-resource; the event kind is not compared. Two upserts that agree on these four are
  merged whatever their kinds: on a store without the key they leave one row, of the first
  kind and with count 2, and on a store with the key they add 2 to the first row of the key. No
  upsert changes the kind of an existing row, and an upsert leaves the rows of every other key
  as they were.
\<close>

theorem C5_key_is_account_day_resource_subresource:
  assumes day: "midnightUTC t' = midnightUTC t"
  shows "let K = lookup_key (ID a) (midnightUTC t) r g;
             evs1 = fst (createActivity evs a kind t r g);
             evs2 = fst (createActivity evs1 a kind' t' r g)
         in ((\<forall>e\<in>set evs. \<not> K e) \<longrightarrow>
                evs2 = evs @ [\<lparr>DockerAccountID = ID a, EventType = kind, EventDate = midnightUTC t,
                               Repository = r, Tag = g, Count = 2\<rparr>])
          \<and> ((\<exists>e\<in>set evs. K e) \<longrightarrow>
                (\<exists>i<length evs. K (evs ! i) \<and> (\<forall>j<i. \<not> K (evs ! j)) \<and>
                   evs2 = evs[i := (evs ! i)\<lparr>Count := Count (evs ! i) + 2\<rparr>]))
          \<and> map EventType (take (length evs) evs1) = map EventType evs
          \<and> (\<forall>a' d' r' g'. (a', d', r', g') \<noteq> (ID a, midnightUTC t, r, g) \<longrightarrow>
                filter (lookup_key a' d' r' g') evs1 = filter (lookup_key a' d' r' g') evs)"
proof (cases "first_index (lookup_key (ID a) (midnightUTC t) r g) evs")
  case None
  then have no: "\<forall>e\<in>set evs. \<not> lookup_key (ID a) (midnightUTC t) r g e"
    by (simp add: first_index_None)
  from createActivity_twice_new [OF None day] no show ?thesis
    by (simp add: Let_def createActivity_kinds_kept createActivity_other_key del: split_paired_All)
next
  case (Some i)
  from first_index_Some [OF Some]
  have i: "i < length evs" and ki: "lookup_key (ID a) (midnightUTC t) r g (evs ! i)"
    and first: "\<forall>j<i. \<not> lookup_key (ID a) (midnightUTC t) r g (evs ! j)"
    by simp_all
  have "evs ! i \<in> set evs" using i by simp
  with ki have ex: "\<exists>e\<in>set evs. lookup_key (ID a) (midnightUTC t) r g e" by blast
  from createActivity_twice_found [OF Some day] i ki first ex show ?thesis
    by (auto simp add: Let_def createActivity_kinds_kept createActivity_other_key
        simp del: split_paired_All)
qed

theorem C5_key_is_account_day_resource_subresource_witness:
  "midnightUTC example_t1 = midnightUTC example_t0
   \<and> fst (createActivity (fst (createActivity [] example_account EventTypePull example_t0 ''web'' ''v1''))
        example_account EventTypeBuild example_t1 ''web'' ''v1'') = [example_row EventTypePull 2]
   \<and> fst (createActivity (fst (createActivity [example_row EventTypePush 2] example_account EventTypePull example_t0 ''web'' ''v1''))
        example_account EventTypeBuild example_t1 ''web'' ''v1'') = [example_row EventTypePush 4]"
proof -
  have h: "midnightUTC example_t1 = midnightUTC example_t0"
    by (simp add: example_midnights)
  have r: "\<lparr>DockerAccountID = ID example_account, EventType = kind, EventDate = 1704067200,
      Repository = ''web'', Tag = ''v1'', Count = n\<rparr> = example_row kind n" for n kind
    by (simp add: example_row_def example_account_def)
  have u: "(example_row kind n)\<lparr>Count := k\<rparr> = example_row kind k" for kind n k
    by (simp add: example_row_def)
  have c: "Count (example_row kind n) = n" for kind n
    by (simp add: example_row_def)
  note w0 = C5_key_is_account_day_resource_subresource [OF h, where a = example_account
        and r = "''web''" and g = "''v1''" and evs = "[]" and kind = EventTypePull
        and kind' = EventTypeBuild, unfolded Let_def]
  note w2 = C5_key_is_account_day_resource_subresource [OF h, where a = example_account
        and r = "''web''" and g = "''v1''" and evs = "[example_row EventTypePush 2]"
        and kind = EventTypePull and kind' = EventTypeBuild, unfolded Let_def]
  have a2: "fst (createActivity (fst (createActivity [] example_account EventTypePull example_t0 ''web'' ''v1''))
        example_account EventTypeBuild example_t1 ''web'' ''v1'') = [example_row EventTypePull 2]"
    using w0 by (simp add: example_midnights r u del: split_paired_All)
  have b2: "fst (createActivity (fst (createActivity [example_row EventTypePush 2] example_account EventTypePull example_t0 ''web'' ''v1''))
        example_account EventTypeBuild example_t1 ''web'' ''v1'') = [example_row EventTypePush 4]"
    using w2 by (simp add: example_midnights example_lookup_key u c del: split_paired_All)
  from h a2 b2 show ?thesis by (simp only: simp_thms)
qed

text \<open>
  Claim C5 as it is worded fails: a push and a pull observation of the same account, day,
  resource and sub-resource end in a single push row of count 2, not in a push row and a pull
  row.
\<close>

theorem C5_kind_in_key_counterexample:
  "fst (createActivity
         (fst (createActivity [] example_account EventTypePush example_t0 ''web'' ''v1''))
         example_account EventTypePull example_t0 ''web'' ''v1'')
     = [\<lparr>DockerAccountID = 4, EventType = EventTypePush, EventDate = 1704067200,
          Repository = ''web'', Tag = ''v1'', Count = 2\<rparr>]
   \<and> length (fst (createActivity
         (fst (createActivity [] example_account EventTypePush example_t0 ''web'' ''v1''))
         example_account EventTypePull example_t0 ''web'' ''v1'')) \<noteq> 2
   \<and> EventTypePull \<notin> EventType ` set (fst (createActivity
         (fst (createActivity [] example_account EventTypePush example_t0 ''web'' ''v1''))
         example_account EventTypePull example_t0 ''web'' ''v1''))"
  by (simp add: createActivity_def lookup_key_def example_account_def example_midnights)

subsection \<open>Aggregator\<close>

lemma startDate_eq:
  "midnightUTC (utc (AddDate now (- days))) = (formatDate now - days) * secondsPerDay"
proof -
  have "(now + (- days) * 86400) div 86400 = - days + now div (86400::int)"
    by (rule div_mult_self1) simp
  then have "(now - days * 86400) div 86400 * 86400 = (now div 86400 - days) * (86400::int)"
    by simp
  then show ?thesis
    by (simp add: midnightUTC_def utc_def AddDate_def formatDate_def secondsPerDay_def)
qed

lemma midnight_le_iff: "k * secondsPerDay \<le> now \<longleftrightarrow> k \<le> formatDate now"
proof -
  have "k * 86400 \<le> now \<longleftrightarrow> k \<le> now div 86400"
  proof
    assume "k * 86400 \<le> now"
    then have "(k * 86400) div 86400 \<le> now div 86400"
      by (rule zdiv_mono1) simp
    then show "k \<le> now div 86400" by simp
  next
    assume "k \<le> now div 86400"
    then have "k * 86400 \<le> (now div 86400) * 86400" by simp
    also have "\<dots> \<le> (now div 86400) * 86400 + now mod 86400" by simp
    also have "\<dots> = now" by simp
    finally show "k * 86400 \<le> now" .
  qed
  then show ?thesis by (simp add: formatDate_def secondsPerDay_def)
qed

lemma fillDates_map:
  "fillDates (k * secondsPerDay) now dm mx = map (summary_for dm mx) [k .. formatDate now]"
proof (induction "nat (formatDate now - k + 1)" arbitrary: k)
  case 0
  then have gt: "\<not> k \<le> formatDate now" by simp
  then have "k * secondsPerDay > now" using midnight_le_iff [of k now] by simp
  with gt show ?case by (simp add: fillDates.simps [of "k * secondsPerDay"])
next
  case (Suc n)
  then have le: "k \<le> formatDate now" by simp
  then have not_after: "\<not> k * secondsPerDay > now" using midnight_le_iff [of k now] by simp
  have next_day: "AddDate (k * secondsPerDay) 1 = (k + 1) * secondsPerDay"
    by (simp add: AddDate_def algebra_simps)
  have fd: "formatDate (k * secondsPerDay) = k"
    by (simp add: formatDate_def secondsPerDay_def)
  from Suc have "n = nat (formatDate now - (k + 1) + 1)" by simp
  from Suc.hyps(1) [OF this]
  have "fillDates ((k + 1) * secondsPerDay) now dm mx = map (summary_for dm mx) [k + 1 .. formatDate now]" .
  with not_after le show ?case
    by (simp add: fillDates.simps [of "k * secondsPerDay"] next_day fd upto_rec1 [of k])
qed

lemma fillDates_hm_map:
  "fillDates_hm (k * secondsPerDay) now dm mx = map (summary_for_hm dm mx) [k .. formatDate now]"
proof (induction "nat (formatDate now - k + 1)" arbitrary: k)
  case 0
  then have gt: "\<not> k \<le> formatDate now" by simp
  then have "k * secondsPerDay > now" using midnight_le_iff [of k now] by simp
  with gt show ?case by (simp add: fillDates_hm.simps [of "k * secondsPerDay"])
next
  case (Suc n)
  then have le: "k \<le> formatDate now" by simp
  then have not_after: "\<not> k * secondsPerDay > now" using midnight_le_iff [of k now] by simp
  have next_day: "AddDate (k * secondsPerDay) 1 = (k + 1) * secondsPerDay"
    by (simp add: AddDate_def algebra_simps)
  have fd: "formatDate (k * secondsPerDay) = k"
    by (simp add: formatDate_def secondsPerDay_def)
  from Suc have "n = nat (formatDate now - (k + 1) + 1)" by simp
  from Suc.hyps(1) [OF this]
  have "fillDates_hm ((k + 1) * secondsPerDay) now dm mx =
      map (summary_for_hm dm mx) [k + 1 .. formatDate now]" .
  with not_after le show ?case
    by (simp add: fillDates_hm.simps [of "k * secondsPerDay"] next_day fd upto_rec1 [of k])
qed

lemma aggregate_None:
  "map_of (fst (aggregate es dm mx)) D = None \<longleftrightarrow>
     map_of dm D = None \<and> (\<forall>e\<in>set es. formatDate (EventDate e) \<noteq> D)"
  by (induction es arbitrary: dm mx) (auto simp add: Let_def update_conv')

lemma aggregate_hm_None:
  "map_of (aggregate_hm es dm) D = None \<longleftrightarrow>
     map_of dm D = None \<and> (\<forall>e\<in>set es. formatDate (EventDate e) \<noteq> D)"
  by (induction es arbitrary: dm) (auto simp add: Let_def update_conv')

lemma aggregate_hm_Date:
  assumes "\<forall>k s. map_of dm k = Some s \<longrightarrow> Date s = k"
  shows "\<forall>k s. map_of (aggregate_hm es dm) k = Some s \<longrightarrow> Date s = k"
  using assms
proof (induction es arbitrary: dm)
  case Nil
  then show ?case by simp
next
  case (Cons e es)
  show ?case
    unfolding aggregate_hm.simps Let_def
    by (rule Cons.IH)
      (use Cons.prems in \<open>auto simp add: update_conv' new_summary_def
          split: option.splits EventType.splits\<close>)
qed

lemma Date_summary_for [simp]: "Date (summary_for dm mx D) = D"
  by (simp add: summary_for_def new_summary_def split: option.splits)

lemma Date_summary_for_hm:
  "\<forall>k s. map_of dm k = Some s \<longrightarrow> Date s = k \<Longrightarrow> Date (summary_for_hm dm mx D) = D"
  by (auto simp add: summary_for_hm_def new_summary_def split: option.splits)




lemma filter_upto_single:
  assumes "a \<le> D" "D \<le> b"
  shows "filter (\<lambda>x::int. x = D) [a..b] = [D]"
proof -
  have "[a..b] = [a..D - 1] @ D # [D + 1..b]"
    using assms by (rule upto_split3)
  moreover have "filter (\<lambda>x. x = D) [a..D - 1] = []"
    by (simp add: filter_empty_conv)
  moreover have "filter (\<lambda>x. x = D) [D + 1..b] = []"
    by (simp add: filter_empty_conv)
  ultimately show ?thesis by simp
qed

lemma GetActivitySummary_eq:
  assumes "GetDockerAccountByUsername d u = Inr account"
  shows "GetActivitySummary d now u days =
     Inr (map (summary_for
                (fst (aggregate (filter (\<lambda>e. DockerAccountID e = ID account \<and>
                          EventDate e \<ge> (formatDate now - days) * secondsPerDay) (events d)) [] 0))
                (snd (aggregate (filter (\<lambda>e. DockerAccountID e = ID account \<and>
                          EventDate e \<ge> (formatDate now - days) * secondsPerDay) (events d)) [] 0)))
           [formatDate now - days .. formatDate now])"
  using assms
  by (simp add: GetActivitySummary_def Let_def startDate_eq fillDates_map split_beta)

lemma GetActivitySummary_hm_eq:
  assumes "GetDockerAccountByUsername d u = Inr account"
  shows "GetActivitySummary_hm d now u days =
     Inr (map (summary_for_hm
                (aggregate_hm (filter (\<lambda>e. DockerAccountID e = ID account \<and>
                          EventDate e \<ge> (formatDate now - days) * secondsPerDay \<and>
                          EventDate e \<le> now) (events d)) [])
                (maxCount_hm (aggregate_hm (filter (\<lambda>e. DockerAccountID e = ID account \<and>
                          EventDate e \<ge> (formatDate now - days) * secondsPerDay \<and>
                          EventDate e \<le> now) (events d)) []) 0))
           [formatDate now - days .. formatDate now])"
  using assms
  by (simp add: GetActivitySummary_hm_def Let_def startDate_eq fillDates_hm_map)

lemma scenario_account:
  "GetDockerAccountByUsername scenario_db ''alice'' = Inr example_account"
  "GetDockerAccountByUsername scenario_db_zero_row ''alice'' = Inr example_account"
  by (simp_all add: GetDockerAccountByUsername_def scenario_db_def scenario_db_zero_row_def
      example_account_def)

lemma scenario_summary:
  "GetActivitySummary scenario_db scenario_now ''alice'' 2 =
     Inr [\<lparr>Date = 19723, TotalCount = 5, Pushes = 0, Pulls = 0, Builds = 0, Level = 2\<rparr>,
          \<lparr>Date = 19724, TotalCount = 0, Pushes = 0, Pulls = 0, Builds = 0, Level = 0\<rparr>,
          \<lparr>Date = 19725, TotalCount = 10, Pushes = 0, Pulls = 0, Builds = 0, Level = 4\<rparr>]"
  unfolding GetActivitySummary_eq [OF scenario_account(1)]
  by (simp add: scenario_db_def scenario_now_def scenario_event_def example_account_def
      formatDate_def secondsPerDay_def Let_def summary_for_def new_summary_def
      calculateLevel_def)

lemma scenario_summary_zero_row:
  "GetActivitySummary scenario_db_zero_row scenario_now ''alice'' 2 =
     Inr [\<lparr>Date = 19723, TotalCount = 5, Pushes = 0, Pulls = 0, Builds = 0, Level = 2\<rparr>,
          \<lparr>Date = 19724, TotalCount = 0, Pushes = 0, Pulls = 0, Builds = 0, Level = 0\<rparr>,
          \<lparr>Date = 19725, TotalCount = 10, Pushes = 0, Pulls = 0, Builds = 0, Level = 4\<rparr>]"
  unfolding GetActivitySummary_eq [OF scenario_account(2)]
  by (simp add: scenario_db_zero_row_def scenario_now_def scenario_event_def example_account_def
      formatDate_def secondsPerDay_def Let_def summary_for_def new_summary_def
      calculateLevel_def)

lemma scenario_summary_hm:
  "GetActivitySummary_hm scenario_db scenario_now ''alice'' 2 =
     Inr [\<lparr>Date = 19723, TotalCount = 5, Pushes = 5, Pulls = 0, Builds = 0, Level = 2\<rparr>,
          \<lparr>Date = 19724, TotalCount = 0, Pushes = 0, Pulls = 0, Builds = 0, Level = 0\<rparr>,
          \<lparr>Date = 19725, TotalCount = 10, Pushes = 10, Pulls = 0, Builds = 0, Level = 4\<rparr>]"
  unfolding GetActivitySummary_hm_eq [OF scenario_account(1)]
  by (simp add: scenario_db_def scenario_now_def scenario_event_def example_account_def
      formatDate_def secondsPerDay_def Let_def summary_for_hm_def new_summary_def
      calculateLevel_hm_def)

lemma scenario_max:
  "snd (aggregate (events scenario_db) [] 0) = 10"
  "maxCount_hm (aggregate_hm (events scenario_db) []) 0 = 10"
  by (simp_all add: scenario_db_def scenario_event_def formatDate_def secondsPerDay_def
      Let_def new_summary_def)


lemma filter_Date_map:
  assumes "\<And>x. Date (f x) = x" and "a \<le> D" and "D \<le> b"
  shows "filter (\<lambda>s. Date s = D) (map f [a..b]) = [f D]"
proof -
  have "filter (\<lambda>s. Date s = D) (map f [a..b]) = map f (filter (\<lambda>x. x = D) [a..b])"
    by (simp add: filter_map comp_def assms(1))
  then show ?thesis
    by (simp add: filter_upto_single [OF assms(2,3)])
qed

text \<open>
  Claim C9. A day of the window on which the account has no event row is not left out: the
  series holds exactly one summary with that date, and it has total count 0 and level 0 (and
  an empty breakdown). Both definitions of \<^verbatim>\<open>GetActivitySummary\<close> do so.
\<close>

theorem C9_empty_day_emitted_as_zero:
  assumes acc: "GetDockerAccountByUsername d u = Inr account"
    and lo: "formatDate now - days \<le> D"
    and hi: "D \<le> formatDate now"
    and none: "\<forall>e\<in>set (events d). DockerAccountID e = ID account \<longrightarrow> formatDate (EventDate e) \<noteq> D"
  shows "(\<exists>ss. GetActivitySummary d now u days = Inr ss
            \<and> filter (\<lambda>s. Date s = D) ss =
                [\<lparr>Date = D, TotalCount = 0, Pushes = 0, Pulls = 0, Builds = 0, Level = 0\<rparr>])
       \<and> (\<exists>ss. GetActivitySummary_hm d now u days = Inr ss
            \<and> filter (\<lambda>s. Date s = D) ss =
                [\<lparr>Date = D, TotalCount = 0, Pushes = 0, Pulls = 0, Builds = 0, Level = 0\<rparr>])"
proof -
  let ?evs = "filter (\<lambda>e. DockerAccountID e = ID account \<and>
                  EventDate e \<ge> (formatDate now - days) * secondsPerDay) (events d)"
  let ?evs' = "filter (\<lambda>e. DockerAccountID e = ID account \<and>
                  EventDate e \<ge> (formatDate now - days) * secondsPerDay \<and>
                  EventDate e \<le> now) (events d)"
  have "map_of (fst (aggregate ?evs [] 0)) D = None"
    using none by (simp add: aggregate_None)
  then have z: "summary_for (fst (aggregate ?evs [] 0)) (snd (aggregate ?evs [] 0)) D =
      new_summary D"
    by (simp add: summary_for_def)
  have "map_of (aggregate_hm ?evs' []) D = None"
    using none by (simp add: aggregate_hm_None)
  then have z': "summary_for_hm (aggregate_hm ?evs' []) (maxCount_hm (aggregate_hm ?evs' []) 0) D =
      new_summary D"
    by (simp add: summary_for_hm_def)
  have inv: "\<forall>k s. map_of (aggregate_hm ?evs' []) k = Some s \<longrightarrow> Date s = k"
    by (rule aggregate_hm_Date) simp
  have one: "filter (\<lambda>s. Date s = D)
      (map (summary_for (fst (aggregate ?evs [] 0)) (snd (aggregate ?evs [] 0)))
        [formatDate now - days .. formatDate now]) = [new_summary D]"
    using filter_Date_map [OF Date_summary_for lo hi] z by simp
  have one': "filter (\<lambda>s. Date s = D)
      (map (summary_for_hm (aggregate_hm ?evs' []) (maxCount_hm (aggregate_hm ?evs' []) 0))
        [formatDate now - days .. formatDate now]) = [new_summary D]"
    using filter_Date_map [OF Date_summary_for_hm [OF inv] lo hi] z' by simp
  show ?thesis
    unfolding GetActivitySummary_eq [OF acc] GetActivitySummary_hm_eq [OF acc]
    using one one' by (simp add: new_summary_def)
qed

theorem C9_empty_day_emitted_as_zero_witness:
  "GetDockerAccountByUsername scenario_db ''alice'' = Inr example_account
   \<and> formatDate scenario_now - 2 \<le> 19724 \<and> 19724 \<le> formatDate scenario_now
   \<and> map (\<lambda>e. formatDate (EventDate e)) (events scenario_db) = [19723, 19725]
   \<and> (case GetActivitySummary scenario_db scenario_now ''alice'' 2 of
         Inl err \<Rightarrow> False
       | Inr ss \<Rightarrow> filter (\<lambda>s. Date s = 19724) ss =
           [\<lparr>Date = 19724, TotalCount = 0, Pushes = 0, Pulls = 0, Builds = 0, Level = 0\<rparr>])"
proof -
  have today: "formatDate scenario_now = 19725"
    by (simp add: formatDate_def scenario_now_def secondsPerDay_def)
  have lo: "formatDate scenario_now - 2 \<le> 19724" and hi: "19724 \<le> formatDate scenario_now"
    by (simp_all add: today)
  have none: "\<forall>e\<in>set (events scenario_db).
         DockerAccountID e = ID example_account \<longrightarrow> formatDate (EventDate e) \<noteq> 19724"
    by (simp add: scenario_db_def scenario_event_def formatDate_def secondsPerDay_def)
  from C9_empty_day_emitted_as_zero [OF scenario_account(1) lo hi none]
  obtain ss where "GetActivitySummary scenario_db scenario_now ''alice'' 2 = Inr ss"
    "filter (\<lambda>s. Date s = 19724) ss =
       [\<lparr>Date = 19724, TotalCount = 0, Pushes = 0, Pulls = 0, Builds = 0, Level = 0\<rparr>]"
    by blast
  moreover have "map (\<lambda>e. formatDate (EventDate e)) (events scenario_db) = [19723, 19725]"
    by (simp add: scenario_db_def scenario_event_def formatDate_def secondsPerDay_def)
  ultimately show ?thesis
    using lo hi by (simp add: scenario_account(1))
qed

lemma scenario_json:
  "GetActivityJSON scenario_db scenario_now ''alice.json'' (Some 2) =
     ActivityJSON ''alice'' 2 \<lparr>activities = 15, pushes = 0, pulls = 0, builds = 0\<rparr>
       [\<lparr>Date = 19723, TotalCount = 5, Pushes = 0, Pulls = 0, Builds = 0, Level = 2\<rparr>,
        \<lparr>Date = 19724, TotalCount = 0, Pushes = 0, Pulls = 0, Builds = 0, Level = 0\<rparr>,
        \<lparr>Date = 19725, TotalCount = 10, Pushes = 0, Pulls = 0, Builds = 0, Level = 4\<rparr>]"
  by (simp add: GetActivityJSON_def GetActivityJSON_with_def TrimSuffix_def Let_def
      scenario_summary)

lemma scenario_json_hm:
  "GetActivityJSON_hm scenario_db scenario_now ''alice.json'' (Some 2) =
     ActivityJSON ''alice'' 2 \<lparr>activities = 15, pushes = 15, pulls = 0, builds = 0\<rparr>
       [\<lparr>Date = 19723, TotalCount = 5, Pushes = 5, Pulls = 0, Builds = 0, Level = 2\<rparr>,
        \<lparr>Date = 19724, TotalCount = 0, Pushes = 0, Pulls = 0, Builds = 0, Level = 0\<rparr>,
        \<lparr>Date = 19725, TotalCount = 10, Pushes = 10, Pulls = 0, Builds = 0, Level = 4\<rparr>]"
  by (simp add: GetActivityJSON_hm_def GetActivityJSON_with_def TrimSuffix_def Let_def
      scenario_summary_hm)

text \<open>
  Claim C3, as the code has it. For the three-day scenario the window maximum is 10 and the
  total of activities is 15; the levels are 2 for 2024-01-01 (the ratio 0.5 is not above
  0.5), 0 for 2024-01-02 and 4 for 2024-01-03. The result is the same when the empty day is
  stored as a row of count 0, and for the second definition of the aggregator.
\<close>

theorem C3_scenario_levels_and_total:
  "snd (aggregate (events scenario_db) [] 0) = 10
   \<and> maxCount_hm (aggregate_hm (events scenario_db) []) 0 = 10
   \<and> GetActivityJSON scenario_db scenario_now ''alice.json'' (Some 2) =
       ActivityJSON ''alice'' 2 \<lparr>activities = 15, pushes = 0, pulls = 0, builds = 0\<rparr>
         [\<lparr>Date = 19723, TotalCount = 5, Pushes = 0, Pulls = 0, Builds = 0, Level = 2\<rparr>,
          \<lparr>Date = 19724, TotalCount = 0, Pushes = 0, Pulls = 0, Builds = 0, Level = 0\<rparr>,
          \<lparr>Date = 19725, TotalCount = 10, Pushes = 0, Pulls = 0, Builds = 0, Level = 4\<rparr>]
   \<and> GetActivitySummary scenario_db_zero_row scenario_now ''alice'' 2 =
       GetActivitySummary scenario_db scenario_now ''alice'' 2
   \<and> GetActivityJSON_hm scenario_db scenario_now ''alice.json'' (Some 2) =
       ActivityJSON ''alice'' 2 \<lparr>activities = 15, pushes = 15, pulls = 0, builds = 0\<rparr>
         [\<lparr>Date = 19723, TotalCount = 5, Pushes = 5, Pulls = 0, Builds = 0, Level = 2\<rparr>,
          \<lparr>Date = 19724, TotalCount = 0, Pushes = 0, Pulls = 0, Builds = 0, Level = 0\<rparr>,
          \<lparr>Date = 19725, TotalCount = 10, Pushes = 10, Pulls = 0, Builds = 0, Level = 4\<rparr>]"
  by (simp only: scenario_max scenario_json scenario_json_hm scenario_summary
      scenario_summary_zero_row simp_thms)

text \<open>
  Claim C3 as it is worded fails on the first day: with count 5 and maximum 10 the level of
  2024-01-01 is 2, not 3.
\<close>

theorem C3_first_day_level_counterexample:
  "GetActivitySummary scenario_db scenario_now ''alice'' 2 =
     Inr [\<lparr>Date = 19723, TotalCount = 5, Pushes = 0, Pulls = 0, Builds = 0, Level = 2\<rparr>,
          \<lparr>Date = 19724, TotalCount = 0, Pushes = 0, Pulls = 0, Builds = 0, Level = 0\<rparr>,
          \<lparr>Date = 19725, TotalCount = 10, Pushes = 0, Pulls = 0, Builds = 0, Level = 4\<rparr>]
   \<and> calculateLevel 5 10 \<noteq> 3 \<and> calculateLevel_hm 5 10 \<noteq> 3"
  by (simp add: scenario_summary calculateLevel_def calculateLevel_hm_def)

subsection \<open>Sync orchestrator\<close>

lemma events_Save [simp]: "events (Save d a) = events d"
  by (simp add: Save_def)

lemma events_mark_running [simp]: "events (mark_running d a) = events d"
  by (simp add: mark_running_def)

lemma find_Save:
  "find (\<lambda>x. ID x = ID a) (map (\<lambda>x. if ID x = ID a then a else x) xs @ ys) =
     (if \<exists>x\<in>set xs. ID x = ID a then Some a else find (\<lambda>x. ID x = ID a) ys)"
  by (induction xs) auto

lemma find_append_cases:
  "find P (xs @ ys) = (case find P xs of None \<Rightarrow> find P ys | Some x \<Rightarrow> Some x)"
  by (induction xs) auto

lemma FirstAccount_Save: "FirstAccount (Save d a) (ID a) = Some a"
proof (cases "\<exists>x\<in>set (accounts d). ID x = ID a")
  case True
  with find_Save [of a "accounts d" "[]"] show ?thesis
    by (simp add: FirstAccount_def Save_def)
next
  case False
  then have "find (\<lambda>x. ID x = ID a) (accounts d) = None"
    by (simp add: find_None_iff)
  with False show ?thesis
    by (simp add: FirstAccount_def Save_def find_append_cases)
qed

lemma example_sync:
  "SyncActivity example_world example_db 4 =
     (\<lparr>accounts = [example_account\<lparr>LastSyncAt := Some 1704283200\<rparr>],
       events = [\<lparr>DockerAccountID = 4, EventType = EventTypePush, EventDate = 1704067200,
                   Repository = ''web'', Tag = [], Count = 1\<rparr>,
                 example_row EventTypePush 1]\<rparr>,
      None,
      [LoginCall ''alice'' ''dckr_pat_1'', FetchRepositoriesCall ''alice'' ''jwt-1'',
       FetchTagsCall ''alice'' ''web'' ''jwt-1''])"
  by (simp add: SyncActivity_def FirstAccount_def mark_running_def Save_def sync_body_def
      login_def example_db_def example_world_def example_account_def Let_def
      createActivity_def lookup_key_def example_midnights example_row_def)

lemma example_sync_bad_key:
  "SyncActivity example_world_bad_key example_db 4 =
     (\<lparr>accounts = [example_account\<lparr>LastSyncAt := Some 1704283200\<rparr>], events = []\<rparr>,
      Some ''cipher: message authentication failed'', [])"
  by (simp add: SyncActivity_def FirstAccount_def mark_running_def Save_def sync_body_def
      example_db_def example_world_bad_key_def example_world_def example_account_def Let_def)

lemma example_sync_hm_bad_key:
  "SyncActivity_hm example_world_bad_key example_db 4 =
     (\<lparr>accounts = [example_account\<lparr>LastSyncAt := Some 1704283200\<rparr>],
       events = [\<lparr>DockerAccountID = 4, EventType = EventTypePush, EventDate = 1704067200,
                   Repository = ''web'', Tag = [], Count = 1\<rparr>,
                 example_row EventTypePush 1]\<rparr>,
      None,
      [FetchRepositoriesCall ''alice'' [], FetchTagsCall ''alice'' ''web'' []])"
  by (simp add: SyncActivity_hm_def FirstAccount_def mark_running_def Save_def sync_body_hm_def
      example_db_def example_world_bad_key_def example_world_def example_account_def Let_def
      createActivity_def lookup_key_def example_midnights example_row_def)

lemma createActivity_push_kinds:
  "\<exists>n. map EventType (fst (createActivity evs a EventTypePush t r g)) =
         map EventType evs @ replicate n EventTypePush"
proof (cases "first_index (lookup_key (ID a) (midnightUTC t) r g) evs")
  case None
  then have "map EventType (fst (createActivity evs a EventTypePush t r g)) =
      map EventType evs @ replicate 1 EventTypePush"
    by (simp add: createActivity_new)
  then show ?thesis by blast
next
  case (Some i)
  from first_index_Some [OF Some] have "i < length evs" by simp
  then have "map EventType (evs[i := (evs ! i)\<lparr>Count := Count (evs ! i) + 1\<rparr>]) = map EventType evs"
    by (simp add: map_update list_update_same_conv)
  then have "map EventType (fst (createActivity evs a EventTypePush t r g)) =
      map EventType evs @ replicate 0 EventTypePush"
    by (simp add: createActivity_found [OF Some])
  then show ?thesis by blast
qed

lemma push_kinds_trans:
  assumes "\<exists>n. map EventType ys = map EventType xs @ replicate n EventTypePush"
    and "\<exists>n. map EventType zs = map EventType ys @ replicate n EventTypePush"
  shows "\<exists>n. map EventType zs = map EventType xs @ replicate n EventTypePush"
proof -
  from assms obtain n m where "map EventType ys = map EventType xs @ replicate n EventTypePush"
    and "map EventType zs = map EventType ys @ replicate m EventTypePush"
    by blast
  then have "map EventType zs = map EventType xs @ replicate (n + m) EventTypePush"
    by (simp add: replicate_add)
  then show ?thesis by blast
qed

lemma push_kinds_refl: "\<exists>n. map EventType xs = map EventType xs @ replicate n EventTypePush"
  by (rule exI [of _ 0]) simp

lemma process_tags_push_kinds:
  "\<exists>n. map EventType (process_tags w a r tags evs) = map EventType evs @ replicate n EventTypePush"
proof (induction tags arbitrary: evs)
  case Nil
  show ?case by (simp add: push_kinds_refl)
next
  case (Cons tag tags)
  let ?evs1 = "if TagLastPushed tag \<noteq> [] then
          (case parseDockerHubTime w (TagLastPushed tag) of
             Inr t \<Rightarrow> fst (createActivity evs a EventTypePush t r (TagName tag))
           | Inl err \<Rightarrow> evs)
        else evs"
  have step: "\<exists>n. map EventType ?evs1 = map EventType evs @ replicate n EventTypePush"
    by (auto simp add: push_kinds_refl createActivity_push_kinds split: sum.splits)
  have "process_tags w a r (tag # tags) evs = process_tags w a r tags ?evs1"
    by simp
  with push_kinds_trans [OF step Cons.IH [of ?evs1]] show ?case
    by simp
qed

lemma process_repos_push_kinds:
  "\<exists>n. map EventType (fst (process_repos w a token repos (evs, calls))) =
         map EventType evs @ replicate n EventTypePush"
proof (induction repos arbitrary: evs calls)
  case Nil
  show ?case by (simp add: push_kinds_refl)
next
  case (Cons repo repos)
  let ?evs1 = "if LastUpdated repo \<noteq> [] then
                    (case parseDockerHubTime w (LastUpdated repo) of
                       Inr t \<Rightarrow> fst (createActivity evs a EventTypePush t (Name repo) [])
                     | Inl err \<Rightarrow> evs)
                  else evs"
  let ?tags = "case FetchTags w (DockerUsername a) (Name repo) token of
                    Inr ts \<Rightarrow> ts
                  | Inl err \<Rightarrow> []"
  let ?evs2 = "process_tags w a (Name repo) ?tags ?evs1"
  have step1: "\<exists>n. map EventType ?evs1 = map EventType evs @ replicate n EventTypePush"
    by (auto simp add: push_kinds_refl createActivity_push_kinds split: sum.splits)
  have step2: "\<exists>n. map EventType ?evs2 = map EventType evs @ replicate n EventTypePush"
    by (rule push_kinds_trans [OF step1 process_tags_push_kinds])
  have "process_repos w a token (repo # repos) (evs, calls) =
      process_repos w a token repos
        (?evs2, calls @ [FetchTagsCall (DockerUsername a) (Name repo) token])"
    by (simp add: Let_def)
  with push_kinds_trans [OF step2 Cons.IH] show ?case
    by simp
qed

lemma sync_body_push_kinds:
  "\<exists>n. map EventType (fst (snd (sync_body w a evs))) = map EventType evs @ replicate n EventTypePush"
proof -
  have "\<exists>n. map EventType (fst (process_repos w a token repos (evs, calls))) =
         map EventType evs @ replicate n EventTypePush" for token repos calls
    by (rule process_repos_push_kinds)
  then show ?thesis
    by (auto simp add: sync_body_def push_kinds_refl split_beta Let_def
        split: sum.splits prod.splits)
qed

lemma sync_body_hm_push_kinds:
  "\<exists>n. map EventType (fst (snd (sync_body_hm w a evs))) = map EventType evs @ replicate n EventTypePush"
proof -
  have "\<exists>n. map EventType (fst (process_repos w a token repos (evs, calls))) =
         map EventType evs @ replicate n EventTypePush" for token repos calls
    by (rule process_repos_push_kinds)
  then show ?thesis
    by (auto simp add: sync_body_hm_def push_kinds_refl split_beta Let_def
        split: sum.splits prod.splits)
qed

lemma SyncActivity_events:
  "events (fst (SyncActivity w d i)) =
     (case FirstAccount d i of
        None \<Rightarrow> events d
      | Some account \<Rightarrow> fst (snd (sync_body w (account\<lparr>SyncInProgress := True\<rparr>) (events d))))"
  by (simp add: SyncActivity_def Let_def split_beta split: option.splits)

lemma SyncActivity_hm_events:
  "events (fst (SyncActivity_hm w d i)) =
     (case FirstAccount d i of
        None \<Rightarrow> events d
      | Some account \<Rightarrow> fst (snd (sync_body_hm w (account\<lparr>SyncInProgress := True\<rparr>) (events d))))"
  by (simp add: SyncActivity_hm_def Let_def split_beta split: option.splits)

lemma SyncActivity_push_kinds:
  "\<exists>n. map EventType (events (fst (SyncActivity w d i))) =
         map EventType (events d) @ replicate n EventTypePush"
  by (simp add: SyncActivity_events push_kinds_refl sync_body_push_kinds split: option.splits)

lemma SyncActivity_hm_push_kinds:
  "\<exists>n. map EventType (events (fst (SyncActivity_hm w d i))) =
         map EventType (events d) @ replicate n EventTypePush"
  by (simp add: SyncActivity_hm_events push_kinds_refl sync_body_hm_push_kinds split: option.splits)

lemma push_kinds_all_push:
  assumes "\<exists>n. map EventType ys = map EventType xs @ replicate n EventTypePush"
    and "\<forall>e\<in>set xs. EventType e = EventTypePush"
  shows "\<forall>e\<in>set ys. EventType e = EventTypePush"
proof -
  from assms(1) obtain n where "map EventType ys = map EventType xs @ replicate n EventTypePush"
    by blast
  then have "set (map EventType ys) \<subseteq> insert EventTypePush (set (map EventType xs))"
    by auto
  with assms(2) show ?thesis by auto
qed

lemma reachable_all_push: "reachable d \<Longrightarrow> \<forall>e\<in>set (events d). EventType e = EventTypePush"
proof (induction rule: reachable.induct)
  case (no_events d)
  then show ?case by simp
next
  case (sync d w accountID)
  from push_kinds_all_push [OF SyncActivity_push_kinds sync.IH] show ?case .
next
  case (sync_hm d w accountID)
  from push_kinds_all_push [OF SyncActivity_hm_push_kinds sync_hm.IH] show ?case .
next
  case (delete d d')
  then show ?case by blast
qed

lemma sum_totals_pulls_builds:
  "pulls (sum_totals as tot) = pulls tot + sum_list (map Pulls as)
   \<and> builds (sum_totals as tot) = builds tot + sum_list (map Builds as)"
  by (induction as arbitrary: tot) simp_all

lemma sum_totals_zero:
  assumes "\<forall>s\<in>set as. Pulls s = 0 \<and> Builds s = 0"
  shows "pulls (sum_totals as \<lparr>activities = 0, pushes = 0, pulls = 0, builds = 0\<rparr>) = 0
       \<and> builds (sum_totals as \<lparr>activities = 0, pushes = 0, pulls = 0, builds = 0\<rparr>) = 0"
proof -
  from assms have "sum_list (map Pulls as) = 0" "sum_list (map Builds as) = 0"
    by (induction as) simp_all
  then show ?thesis
    by (simp add: sum_totals_pulls_builds)
qed

lemma summary_for_breakdown:
  "Pushes (summary_for dm mx D) = 0 \<and> Pulls (summary_for dm mx D) = 0
   \<and> Builds (summary_for dm mx D) = 0"
  by (simp add: summary_for_def new_summary_def split: option.splits)

lemma GetActivitySummary_breakdown:
  assumes "GetActivitySummary d now u days = Inr ss"
  shows "\<forall>s\<in>set ss. Pulls s = 0 \<and> Builds s = 0"
proof (cases "GetDockerAccountByUsername d u")
  case (Inl err)
  with assms show ?thesis by (simp add: GetActivitySummary_def)
next
  case (Inr account)
  from assms show ?thesis
    unfolding GetActivitySummary_eq [OF Inr]
    by (auto simp add: summary_for_breakdown)
qed

lemma aggregate_hm_breakdown:
  assumes "\<forall>e\<in>set es. EventType e = EventTypePush"
    and "\<forall>k s. map_of dm k = Some s \<longrightarrow> Pulls s = 0 \<and> Builds s = 0"
  shows "\<forall>k s. map_of (aggregate_hm es dm) k = Some s \<longrightarrow> Pulls s = 0 \<and> Builds s = 0"
  using assms
proof (induction es arbitrary: dm)
  case Nil
  then show ?case by simp
next
  case (Cons e es)
  from Cons.prems(1) have push: "EventType e = EventTypePush"
    and rest: "\<forall>e\<in>set es. EventType e = EventTypePush"
    by simp_all
  show ?case
    unfolding aggregate_hm.simps Let_def
    by (rule Cons.IH [OF rest])
      (use Cons.prems(2) push in \<open>auto simp add: update_conv' new_summary_def
          split: option.splits\<close>)
qed

lemma summary_for_hm_breakdown:
  assumes "\<forall>k s. map_of dm k = Some s \<longrightarrow> Pulls s = 0 \<and> Builds s = 0"
  shows "Pulls (summary_for_hm dm mx D) = 0 \<and> Builds (summary_for_hm dm mx D) = 0"
  using assms by (auto simp add: summary_for_hm_def new_summary_def split: option.splits)

lemma GetActivitySummary_hm_breakdown:
  assumes "GetActivitySummary_hm d now u days = Inr ss"
    and "\<forall>e\<in>set (events d). EventType e = EventTypePush"
  shows "\<forall>s\<in>set ss. Pulls s = 0 \<and> Builds s = 0"
proof (cases "GetDockerAccountByUsername d u")
  case (Inl err)
  with assms(1) show ?thesis by (simp add: GetActivitySummary_hm_def)
next
  case (Inr account)
  have inv: "\<forall>k s. map_of (aggregate_hm (filter P (events d)) []) k = Some s \<longrightarrow>
      Pulls s = 0 \<and> Builds s = 0" for P
    by (rule aggregate_hm_breakdown) (use assms(2) in simp_all)
  from assms(1) show ?thesis
    unfolding GetActivitySummary_hm_eq [OF Inr]
    by (auto simp add: summary_for_hm_breakdown [OF inv])
qed

lemma GetActivityJSON_with_totals:
  assumes "GetActivityJSON_with summary param q = ActivityJSON u days tot acts"
  shows "summary u days = Inr acts
       \<and> tot = sum_totals acts \<lparr>activities = 0, pushes = 0, pulls = 0, builds = 0\<rparr>"
  using assms
  by (auto simp add: GetActivityJSON_with_def Let_def split: if_splits sum.splits option.splits)

text \<open>
  Claim C10. A sync run leaves the kind of every existing row as it was and every row it
  appends is a push, in both definitions of \<^verbatim>\<open>SyncActivity\<close>. So in every store built up
  from one without events by sync runs and deletions all rows are pushes, and the totals
  of pulls and of builds in the answer of \<^verbatim>\<open>GetActivityJSON\<close> are 0, for every user name,
  instant and window.
\<close>

theorem C10_only_push_events_recorded:
  "(\<exists>n. map EventType (events (fst (SyncActivity w d accountID))) =
          map EventType (events d) @ replicate n EventTypePush)
   \<and> (\<exists>n. map EventType (events (fst (SyncActivity_hm w d accountID))) =
          map EventType (events d) @ replicate n EventTypePush)
   \<and> (reachable d' \<longrightarrow>
        (\<forall>e\<in>set (events d'). EventType e = EventTypePush)
      \<and> (\<forall>now param q u days tot acts.
            GetActivityJSON d' now param q = ActivityJSON u days tot acts \<longrightarrow>
              pulls tot = 0 \<and> builds tot = 0 \<and> (\<forall>s\<in>set acts. Pulls s = 0 \<and> Builds s = 0))
      \<and> (\<forall>now param q u days tot acts.
            GetActivityJSON_hm d' now param q = ActivityJSON u days tot acts \<longrightarrow>
              pulls tot = 0 \<and> builds tot = 0 \<and> (\<forall>s\<in>set acts. Pulls s = 0 \<and> Builds s = 0)))"
proof (intro conjI impI allI)
  show "\<exists>n. map EventType (events (fst (SyncActivity w d accountID))) =
          map EventType (events d) @ replicate n EventTypePush"
    by (rule SyncActivity_push_kinds)
  show "\<exists>n. map EventType (events (fst (SyncActivity_hm w d accountID))) =
          map EventType (events d) @ replicate n EventTypePush"
    by (rule SyncActivity_hm_push_kinds)
next
  assume "reachable d'"
  then show "\<forall>e\<in>set (events d'). EventType e = EventTypePush"
    by (rule reachable_all_push)
next
  fix now param q u days tot acts
  assume "GetActivityJSON d' now param q = ActivityJSON u days tot acts"
  then have "GetActivitySummary d' now u days = Inr acts"
    and tot: "tot = sum_totals acts \<lparr>activities = 0, pushes = 0, pulls = 0, builds = 0\<rparr>"
    using GetActivityJSON_with_totals [of "GetActivitySummary d' now" param q u days tot acts]
    by (simp_all add: GetActivityJSON_def)
  then have z: "\<forall>s\<in>set acts. Pulls s = 0 \<and> Builds s = 0"
    by (simp add: GetActivitySummary_breakdown)
  from sum_totals_zero [OF z] tot show "pulls tot = 0" "builds tot = 0"
    by simp_all
  from z show "\<forall>s\<in>set acts. Pulls s = 0 \<and> Builds s = 0" .
next
  fix now param q u days tot acts
  assume r: "reachable d'"
  assume "GetActivityJSON_hm d' now param q = ActivityJSON u days tot acts"
  then have s: "GetActivitySummary_hm d' now u days = Inr acts"
    and tot: "tot = sum_totals acts \<lparr>activities = 0, pushes = 0, pulls = 0, builds = 0\<rparr>"
    using GetActivityJSON_with_totals [of "GetActivitySummary_hm d' now" param q u days tot acts]
    by (simp_all add: GetActivityJSON_hm_def)
  from GetActivitySummary_hm_breakdown [OF s reachable_all_push [OF r]]
  have z: "\<forall>s\<in>set acts. Pulls s = 0 \<and> Builds s = 0" .
  from sum_totals_zero [OF z] tot show "pulls tot = 0" "builds tot = 0"
    by simp_all
  from z show "\<forall>s\<in>set acts. Pulls s = 0 \<and> Builds s = 0" .
qed

lemma example_synced_account:
  "GetDockerAccountByUsername (fst (SyncActivity example_world example_db 4)) ''alice'' =
     Inr (example_account\<lparr>LastSyncAt := Some 1704283200\<rparr>)"
  by (simp add: example_sync GetDockerAccountByUsername_def example_account_def)

lemma example_synced_summary_hm:
  "GetActivitySummary_hm (fst (SyncActivity example_world example_db 4)) 1704283200 ''alice'' 2 =
     Inr [\<lparr>Date = 19723, TotalCount = 2, Pushes = 2, Pulls = 0, Builds = 0, Level = 4\<rparr>,
          \<lparr>Date = 19724, TotalCount = 0, Pushes = 0, Pulls = 0, Builds = 0, Level = 0\<rparr>,
          \<lparr>Date = 19725, TotalCount = 0, Pushes = 0, Pulls = 0, Builds = 0, Level = 0\<rparr>]"
  unfolding GetActivitySummary_hm_eq [OF example_synced_account]
  by (simp add: example_sync example_row_def example_account_def
      formatDate_def secondsPerDay_def Let_def summary_for_hm_def new_summary_def
      calculateLevel_hm_def)

lemma example_synced_json_hm:
  "GetActivityJSON_hm (fst (SyncActivity example_world example_db 4)) 1704283200 ''alice'' (Some 2) =
     ActivityJSON ''alice'' 2 \<lparr>activities = 2, pushes = 2, pulls = 0, builds = 0\<rparr>
       [\<lparr>Date = 19723, TotalCount = 2, Pushes = 2, Pulls = 0, Builds = 0, Level = 4\<rparr>,
        \<lparr>Date = 19724, TotalCount = 0, Pushes = 0, Pulls = 0, Builds = 0, Level = 0\<rparr>,
        \<lparr>Date = 19725, TotalCount = 0, Pushes = 0, Pulls = 0, Builds = 0, Level = 0\<rparr>]"
  by (simp add: GetActivityJSON_hm_def GetActivityJSON_with_def TrimSuffix_def Let_def
      example_synced_summary_hm)

theorem C10_only_push_events_recorded_witness:
  "map EventType (events (fst (SyncActivity example_world example_db 4))) =
     [EventTypePush, EventTypePush]
   \<and> (case GetActivityJSON_hm (fst (SyncActivity example_world example_db 4)) 1704283200
             ''alice'' (Some 2) of
         ActivityJSON u days tot acts \<Rightarrow> activities tot = 2 \<and> pulls tot = 0 \<and> builds tot = 0
       | _ \<Rightarrow> False)"
proof -
  have "events example_db = []" by (simp add: example_db_def)
  then have "reachable example_db" by (rule reachable.no_events)
  then have r: "reachable (fst (SyncActivity example_world example_db 4))"
    by (rule reachable.sync)
  note c10 = C10_only_push_events_recorded [where w = example_world and d = example_db
      and accountID = 4 and d' = "fst (SyncActivity example_world example_db 4)"]
  from c10 obtain n where eq:
    "map EventType (events (fst (SyncActivity example_world example_db 4))) =
       map EventType (events example_db) @ replicate n EventTypePush"
    by blast
  then have "length (map EventType (events (fst (SyncActivity example_world example_db 4)))) =
      length (map EventType (events example_db) @ replicate n EventTypePush)"
    by (rule arg_cong)
  then have "n = 2"
    by (simp add: example_sync \<open>events example_db = []\<close>)
  with eq have kinds: "map EventType (events (fst (SyncActivity example_world example_db 4))) =
     [EventTypePush, EventTypePush]"
    by (simp add: \<open>events example_db = []\<close> numeral_2_eq_2)
  from c10 r example_synced_json_hm
  have "pulls \<lparr>activities = 2, pushes = 2, pulls = 0, builds = 0\<rparr> = 0
      \<and> builds \<lparr>activities = 2, pushes = 2, pulls = 0, builds = 0\<rparr> = (0::int)"
    by blast
  with kinds show ?thesis
    by (simp add: example_synced_json_hm)
qed

lemma FirstAccount_ID: "FirstAccount d i = Some account \<Longrightarrow> ID account = i"
  by (auto simp add: FirstAccount_def find_Some_iff)

lemma sync_body_account:
  "fst (sync_body w a evs) =
     a\<lparr>LastSyncError :=
         (case Decrypt w (EncryptedToken a) (TokenIV a) of
            Inl err \<Rightarrow> LastSyncError a
          | Inr pat \<Rightarrow>
              (case fst (login w (DockerUsername a) pat) of
                 Inl err \<Rightarrow> ''Authentication failed''
               | Inr token \<Rightarrow>
                   (case FetchRepositories w (DockerUsername a) token of
                      Inl err \<Rightarrow> ''Failed to fetch repositories''
                    | Inr repos \<Rightarrow> [])))\<rparr>"
  by (simp add: sync_body_def split_beta Let_def split: sum.splits prod.splits)

lemma sync_body_hm_account:
  "fst (sync_body_hm w a evs) =
     a\<lparr>LastSyncError := (case snd (snd (snd (sync_body_hm w a evs))) of None \<Rightarrow> [] | Some err \<Rightarrow> err)\<rparr>"
  by (simp add: sync_body_hm_def split_beta Let_def split: sum.splits prod.splits)

lemma SyncActivity_account_at_exit:
  assumes "FirstAccount d i = Some account"
  shows "FirstAccount (fst (SyncActivity w d i)) i =
     Some ((fst (sync_body w (account\<lparr>SyncInProgress := True\<rparr>) (events d)))
             \<lparr>SyncInProgress := False, LastSyncAt := Some (Now w)\<rparr>)"
proof -
  let ?a = "(fst (sync_body w (account\<lparr>SyncInProgress := True\<rparr>) (events d)))
             \<lparr>SyncInProgress := False, LastSyncAt := Some (Now w)\<rparr>"
  have "ID ?a = i"
    using FirstAccount_ID [OF assms] by (simp add: sync_body_account)
  with FirstAccount_Save [of _ ?a] show ?thesis
    using assms by (simp add: SyncActivity_def Let_def split_beta)
qed

lemma SyncActivity_hm_account_at_exit:
  assumes "FirstAccount d i = Some account"
  shows "FirstAccount (fst (SyncActivity_hm w d i)) i =
     Some ((fst (sync_body_hm w (account\<lparr>SyncInProgress := True\<rparr>) (events d)))
             \<lparr>SyncInProgress := False, LastSyncAt := Some (Now w)\<rparr>)"
proof -
  let ?a = "(fst (sync_body_hm w (account\<lparr>SyncInProgress := True\<rparr>) (events d)))
             \<lparr>SyncInProgress := False, LastSyncAt := Some (Now w)\<rparr>"
  have "ID ?a = i"
    using FirstAccount_ID [OF assms] by (simp add: sync_body_hm_account)
  with FirstAccount_Save [of _ ?a] show ?thesis
    using assms by (simp add: SyncActivity_hm_def Let_def split_beta)
qed

text \<open>On every exit of a run for an account that exists the flag is cleared and the time of
  the exit recorded, in both definitions; the second definition also leaves the message of the
  returned error, or the empty string, in the error field on every path.\<close>

lemma SyncActivity_exit_flag_and_time:
  assumes "FirstAccount d i = Some account"
  shows "\<exists>a. FirstAccount (fst (SyncActivity w d i)) i = Some a
           \<and> \<not> SyncInProgress a \<and> LastSyncAt a = Some (Now w)
           \<and> (fst (snd (SyncActivity w d i)) = None \<longrightarrow> LastSyncError a = [])"
  unfolding SyncActivity_account_at_exit [OF assms]
  using assms
  by (auto simp add: sync_body_account SyncActivity_def sync_body_def Let_def split_beta
      split: sum.splits prod.splits)

lemma SyncActivity_hm_exit:
  assumes "FirstAccount d i = Some account"
  shows "\<exists>a. FirstAccount (fst (SyncActivity_hm w d i)) i = Some a
           \<and> \<not> SyncInProgress a \<and> LastSyncAt a = Some (Now w)
           \<and> LastSyncError a = (case fst (snd (SyncActivity_hm w d i)) of None \<Rightarrow> [] | Some err \<Rightarrow> err)"
  unfolding SyncActivity_hm_account_at_exit [OF assms]
  using assms
  by (simp add: sync_body_hm_account SyncActivity_hm_def Let_def split_beta)

text \<open>
  Claim C7 fails in \<^verbatim>\<open>docker_service.go\<close> when \<^verbatim>\<open>utils.Decrypt\<close> fails: the run returns the
  error with the flag cleared and the time set, but the error field is not written. With the
  example account, whose error field is empty, the failed run leaves it empty.
\<close>

theorem C7_decrypt_failure_error_field_unwritten:
  "LastSyncError example_account = []
   \<and> SyncActivity example_world_bad_key example_db 4 =
       (\<lparr>accounts = [example_account\<lparr>SyncInProgress := False, LastSyncAt := Some 1704283200,
                                     LastSyncError := []\<rparr>],
         events = []\<rparr>,
        Some ''cipher: message authentication failed'', [])"
  by (simp add: example_sync_bad_key example_account_def)







lemma process_tags_Decrypt_irrelevant:
  "process_tags (w\<lparr>Decrypt := f\<rparr>) a r tags evs = process_tags w a r tags evs"
  by (induction tags arbitrary: evs) simp_all

lemma process_repos_Decrypt_irrelevant:
  "process_repos (w\<lparr>Decrypt := f\<rparr>) a token repos st = process_repos w a token repos st"
proof (induction repos arbitrary: st)
  case Nil
  show ?case by simp
next
  case (Cons repo repos)
  obtain evs calls where st: "st = (evs, calls)" by (cases st)
  show ?case
    unfolding st process_repos.simps Let_def
    by (simp add: Cons.IH process_tags_Decrypt_irrelevant)
qed

lemma process_repos_calls_prefix:
  "\<exists>rest. snd (process_repos w a token repos (evs, c # cs)) = c # rest"
proof (induction repos arbitrary: evs cs)
  case Nil
  show ?case by simp
next
  case (Cons repo repos)
  show ?case
    unfolding process_repos.simps Let_def append_Cons
    by (rule Cons.IH)
qed

lemma sync_body_hm_decrypt_failure:
  assumes "Decrypt w (EncryptedToken a) (TokenIV a) = Inl e"
  shows "sync_body_hm w a evs = sync_body_hm (w\<lparr>Decrypt := \<lambda>c iv. Inr []\<rparr>) a evs"
proof (cases "FetchRepositories w (DockerUsername a) []")
  case (Inl err)
  with assms show ?thesis by (simp add: sync_body_hm_def)
next
  case (Inr repos)
  with assms show ?thesis
    by (simp add: sync_body_hm_def process_repos_Decrypt_irrelevant)
qed

lemma sync_body_hm_first_call:
  assumes "Decrypt w (EncryptedToken a) (TokenIV a) = Inl e"
  shows "\<exists>rest. fst (snd (snd (sync_body_hm w a evs))) =
           FetchRepositoriesCall (DockerUsername a) [] # rest"
proof (cases "FetchRepositories w (DockerUsername a) []")
  case (Inl err)
  with assms show ?thesis by (simp add: sync_body_hm_def)
next
  case (Inr repos)
  from process_repos_calls_prefix [of w a "[]" repos evs
      "FetchRepositoriesCall (DockerUsername a) []" "[]"]
  obtain rest where "snd (process_repos w a [] repos
      (evs, [FetchRepositoriesCall (DockerUsername a) []])) =
      FetchRepositoriesCall (DockerUsername a) [] # rest"
    by blast
  with assms Inr show ?thesis
    by (simp add: sync_body_hm_def split_beta)
qed

lemma SyncActivity_hm_unfold:
  assumes "FirstAccount d i = Some account"
  shows "SyncActivity_hm w d i =
     (let b = sync_body_hm w (account\<lparr>SyncInProgress := True\<rparr>) (events d)
      in (Save ((mark_running d account)\<lparr>events := fst (snd b)\<rparr>)
            ((fst b)\<lparr>SyncInProgress := False, LastSyncAt := Some (Now w)\<rparr>),
          snd (snd (snd b)), fst (snd (snd b))))"
  using assms by (simp add: SyncActivity_hm_def Let_def split_beta)

text \<open>
  Claim C8, as the code has it. When \<^verbatim>\<open>utils.Decrypt\<close> fails for the stored credential of an
  account, the second definition of \<^verbatim>\<open>SyncActivity\<close> goes on exactly as a run whose
  credential is the empty string: its first request is the repository listing with an empty
  token. \<^verbatim>\<open>SyncActivity\<close> of \<^verbatim>\<open>docker_service.go\<close> ends the run there: it returns the
  error of the decryption, sends no request and writes no event, clears the flag and records
  the time.
\<close>

theorem C8_decrypt_failure_per_definition:
  assumes acc: "FirstAccount d i = Some account"
    and fail: "Decrypt w (EncryptedToken account) (TokenIV account) = Inl e"
  shows "SyncActivity_hm w d i = SyncActivity_hm (w\<lparr>Decrypt := \<lambda>c iv. Inr []\<rparr>) d i
       \<and> (\<exists>rest. snd (snd (SyncActivity_hm w d i)) =
                   FetchRepositoriesCall (DockerUsername account) [] # rest)
       \<and> SyncActivity w d i =
           (Save (mark_running d account)
              (account\<lparr>SyncInProgress := False, LastSyncAt := Some (Now w)\<rparr>),
            Some e, [])
       \<and> events (fst (SyncActivity w d i)) = events d"
proof -
  let ?a = "account\<lparr>SyncInProgress := True\<rparr>"
  from fail have fail': "Decrypt w (EncryptedToken ?a) (TokenIV ?a) = Inl e"
    by simp
  have 1: "SyncActivity_hm w d i = SyncActivity_hm (w\<lparr>Decrypt := \<lambda>c iv. Inr []\<rparr>) d i"
    using acc sync_body_hm_decrypt_failure [OF fail', of "events d"]
    by (simp add: SyncActivity_hm_unfold)
  have 2: "\<exists>rest. snd (snd (SyncActivity_hm w d i)) =
                   FetchRepositoriesCall (DockerUsername account) [] # rest"
    using acc sync_body_hm_first_call [OF fail', of "events d"]
    by (simp add: SyncActivity_hm_unfold Let_def)
  have 3: "SyncActivity w d i =
           (Save (mark_running d account)
              (account\<lparr>SyncInProgress := False, LastSyncAt := Some (Now w)\<rparr>),
            Some e, [])"
    using acc fail by (simp add: SyncActivity_def sync_body_def Let_def)
  from 3 have 4: "events (fst (SyncActivity w d i)) = events d"
    by simp
  from 1 2 3 4 show ?thesis by blast
qed

theorem C8_decrypt_failure_per_definition_witness:
  "FirstAccount example_db 4 = Some example_account
   \<and> Decrypt example_world_bad_key (EncryptedToken example_account) (TokenIV example_account) =
        Inl ''cipher: message authentication failed''
   \<and> snd (snd (SyncActivity_hm example_world_bad_key example_db 4)) =
        [FetchRepositoriesCall ''alice'' [], FetchTagsCall ''alice'' ''web'' []]
   \<and> fst (snd (SyncActivity example_world_bad_key example_db 4)) =
        Some ''cipher: message authentication failed''
   \<and> snd (snd (SyncActivity example_world_bad_key example_db 4)) = []
   \<and> events (fst (SyncActivity example_world_bad_key example_db 4)) = events example_db"
proof -
  have a: "FirstAccount example_db 4 = Some example_account"
    by (simp add: FirstAccount_def example_db_def example_account_def)
  have f: "Decrypt example_world_bad_key (EncryptedToken example_account) (TokenIV example_account) =
        Inl ''cipher: message authentication failed''"
    by (simp add: example_world_bad_key_def)
  from C8_decrypt_failure_per_definition [OF a f] a f show ?thesis
    by (simp add: example_sync_hm_bad_key)
qed

text \<open>
  Claim C8 as it is worded fails for \<^verbatim>\<open>docker_service.go\<close>: in a world where the registry
  would answer a request without a token, a run whose decryption fails returns the error,
  sends no request and writes no event; the second definition on the same input sends its
  requests with the empty token and records two events.
\<close>

theorem C8_decrypt_failure_aborts_counterexample:
  "SyncActivity example_world_bad_key example_db 4 =
     (\<lparr>accounts = [example_account\<lparr>LastSyncAt := Some 1704283200\<rparr>], events = []\<rparr>,
      Some ''cipher: message authentication failed'', [])
   \<and> snd (snd (SyncActivity_hm example_world_bad_key example_db 4)) =
       [FetchRepositoriesCall ''alice'' [], FetchTagsCall ''alice'' ''web'' []]
   \<and> length (events (fst (SyncActivity_hm example_world_bad_key example_db 4))) = 2"
  by (simp add: example_sync_bad_key example_sync_hm_bad_key)

end
